theory Spec2Isabelle
  imports Complex_Main "HOL-Library.Monad_Syntax"
begin

section \<open>The web UI host manager: tasks, status updates and chunked artifacts\<close>

text \<open>
  The host manager of the web UI (\<^verbatim>\<open>hosts/webui/frontend/service/server/adk_host_manager.py\<close>,
  class \<^verbatim>\<open>ADKHostManager\<close>) keeps its tasks in the list \<^verbatim>\<open>self._tasks\<close> and the chunks
  of artifacts that are still being streamed in the dictionary \<^verbatim>\<open>self._artifact_chunks\<close>.
  Its wire types come from the package \<^verbatim>\<open>a2a.types\<close>; the records below carry the
  fields that the manager reads or writes. A field \<^verbatim>\<open>f\<close> of a class \<^verbatim>\<open>C\<close> is the record
  field \<open>C_f\<close>, since record fields are global constants in HOL and several classes share
  field names.
\<close>

datatype TaskState =
  submitted | working | input_required | completed | canceled | failed
  | rejected | auth_required | unknown

datatype Role = user | agent

datatype Part = TextPart string | FilePart string | DataPart string

record Message =
  Message_role :: Role
  Message_parts :: "Part list"
  Message_messageId :: string
  Message_taskId :: "string option"
  Message_contextId :: "string option"

record TaskStatus =
  TaskStatus_state :: TaskState
  TaskStatus_message :: "Message option"
  TaskStatus_timestamp :: "string option"

record Artifact =
  Artifact_artifactId :: string
  Artifact_name :: "string option"
  Artifact_description :: "string option"
  Artifact_parts :: "Part list"

record Task =
  Task_id :: string
  Task_contextId :: "string option"
  Task_status :: TaskStatus
  Task_artifacts :: "Artifact list option"
  Task_history :: "Message list option"

record TaskStatusUpdateEvent =
  TaskStatusUpdateEvent_taskId :: string
  TaskStatusUpdateEvent_contextId :: "string option"
  TaskStatusUpdateEvent_status :: TaskStatus
  TaskStatusUpdateEvent_final :: bool

record TaskArtifactUpdateEvent =
  TaskArtifactUpdateEvent_taskId :: string
  TaskArtifactUpdateEvent_contextId :: "string option"
  TaskArtifactUpdateEvent_artifact :: Artifact
  TaskArtifactUpdateEvent_append :: "bool option"
  TaskArtifactUpdateEvent_lastChunk :: "bool option"

text \<open>The argument of \<^verbatim>\<open>task_callback\<close>: \<^verbatim>\<open>TaskCallbackArg\<close> is the union of the three classes.\<close>

datatype TaskCallbackArg =
  ArgTask Task
  | ArgStatus TaskStatusUpdateEvent
  | ArgArtifact TaskArtifactUpdateEvent

text \<open>
  Python's truth value of an optional boolean (\<^verbatim>\<open>None\<close> and \<^verbatim>\<open>False\<close> are false) and of an
  optional list (\<^verbatim>\<open>None\<close> and the empty list are false).
\<close>

fun truthy :: "bool option \<Rightarrow> bool" where
  "truthy None = False"
| "truthy (Some b) = b"

fun list_or_empty :: "'a list option \<Rightarrow> 'a list" where
  "list_or_empty None = []"
| "list_or_empty (Some xs) = xs"

subsection \<open>Assembling chunked artifacts\<close>

text \<open>
  \<^verbatim>\<open>ADKHostManager.process_artifact_event\<close> mutates the task it is given and the dictionary
  \<^verbatim>\<open>self._artifact_chunks\<close>; the model takes both and returns both. The artifact kept in the
  dictionary is the object of the first chunk, whose \<^verbatim>\<open>parts\<close> list is extended in place by
  every append chunk: in the model the last entry of the list under the artifact's id is
  replaced by the extended value. The function has no \<^verbatim>\<open>raise\<close>, and each of its indexings
  \<^verbatim>\<open>[-1]\<close> comes after the check that the list is there and not empty.
\<close>

definition process_artifact_event ::
  "(string \<rightharpoonup> Artifact list) \<Rightarrow> Task \<Rightarrow> TaskArtifactUpdateEvent
     \<Rightarrow> (string \<rightharpoonup> Artifact list) \<times> Task" where
  "process_artifact_event artifact_chunks current_task task_update_event =
    (let artifact = TaskArtifactUpdateEvent_artifact task_update_event;
         aid = Artifact_artifactId artifact
     in
     if \<not> truthy (TaskArtifactUpdateEvent_append task_update_event) then
       (if TaskArtifactUpdateEvent_lastChunk task_update_event = None
           \<or> truthy (TaskArtifactUpdateEvent_lastChunk task_update_event)
        then
          (artifact_chunks,
           current_task\<lparr>Task_artifacts :=
             Some (list_or_empty (Task_artifacts current_task) @ [artifact])\<rparr>)
        else
          (artifact_chunks(aid \<mapsto> list_or_empty (artifact_chunks aid) @ [artifact]),
           current_task))
     else
       (case artifact_chunks aid of
          None \<Rightarrow> (artifact_chunks, current_task)
        | Some chunks \<Rightarrow>
            if chunks = [] then (artifact_chunks, current_task)
            else
              (let current_temp_artifact =
                     (last chunks)\<lparr>Artifact_parts :=
                        Artifact_parts (last chunks) @ Artifact_parts artifact\<rparr>
               in
               if truthy (TaskArtifactUpdateEvent_lastChunk task_update_event) then
                 ((if butlast chunks = [] then artifact_chunks(aid := None)
                   else artifact_chunks(aid \<mapsto> butlast chunks)),
                  current_task\<lparr>Task_artifacts :=
                    Some (list_or_empty (Task_artifacts current_task)
                            @ [current_temp_artifact])\<rparr>)
               else
                 (artifact_chunks(aid \<mapsto> butlast chunks @ [current_temp_artifact]),
                  current_task))))"

text \<open>A stream of artifact events against one task, handled in arrival order.\<close>

fun process_artifact_events ::
  "(string \<rightharpoonup> Artifact list) \<Rightarrow> Task \<Rightarrow> TaskArtifactUpdateEvent list
     \<Rightarrow> (string \<rightharpoonup> Artifact list) \<times> Task" where
  "process_artifact_events artifact_chunks current_task [] = (artifact_chunks, current_task)"
| "process_artifact_events artifact_chunks current_task (e # es) =
     (case process_artifact_event artifact_chunks current_task e of
        (artifact_chunks', current_task') \<Rightarrow>
          process_artifact_events artifact_chunks' current_task' es)"

subsection \<open>The manager's state and \<^verbatim>\<open>task_callback\<close>\<close>

text \<open>
  The fields of \<^verbatim>\<open>ADKHostManager\<close> that \<^verbatim>\<open>task_callback\<close> and its helpers touch; the field
  \<^verbatim>\<open>self._f\<close> is \<open>self_f\<close>. The values that the code draws from outside (\<^verbatim>\<open>uuid.uuid4()\<close> and the
  clock) are inputs of the model: one identifier for each place that asks for one.
\<close>

record Event =
  Event_id :: string
  Event_actor :: string
  Event_content :: Message
  Event_timestamp :: real

record ADKHostManager =
  self_tasks :: "Task list"
  self_events :: "string \<rightharpoonup> Event"
  self_artifact_chunks :: "string \<rightharpoonup> Artifact list"
  self_task_map :: "string \<rightharpoonup> string"
  self_processing_tasks :: "string set"
  self_callback_depth :: "string \<rightharpoonup> int"

record Outside =
  uuid_task :: string
  uuid_message :: string
  uuid_event :: string
  utcnow :: real

record AgentCard =
  AgentCard_name :: string

text \<open>\<^verbatim>\<open>str(state)\<close> of a member of the enumeration \<^verbatim>\<open>TaskState\<close>.\<close>

fun str_TaskState :: "TaskState \<Rightarrow> string" where
  "str_TaskState submitted = ''TaskState.submitted''"
| "str_TaskState working = ''TaskState.working''"
| "str_TaskState input_required = ''TaskState.input_required''"
| "str_TaskState completed = ''TaskState.completed''"
| "str_TaskState canceled = ''TaskState.canceled''"
| "str_TaskState failed = ''TaskState.failed''"
| "str_TaskState rejected = ''TaskState.rejected''"
| "str_TaskState auth_required = ''TaskState.auth_required''"
| "str_TaskState unknown = ''TaskState.unknown''"

definition add_task :: "ADKHostManager \<Rightarrow> Task \<Rightarrow> ADKHostManager" where
  "add_task self task = self\<lparr>self_tasks := self_tasks self @ [task]\<rparr>"

text \<open>
  \<^verbatim>\<open>update_task\<close> walks the list and overwrites the first task of the same id, then returns;
  a task of an unknown id changes nothing. \<^verbatim>\<open>InMemoryFakeAgentManager.update_task\<close>
  (\<^verbatim>\<open>in_memory_manager.py\<close>) has the same body on its own list \<^verbatim>\<open>self._tasks\<close>, so both are
  \<open>replace_first\<close> on the list.
\<close>

fun replace_first :: "Task \<Rightarrow> Task list \<Rightarrow> Task list" where
  "replace_first task [] = []"
| "replace_first task (t # ts) =
     (if Task_id t = Task_id task then task # ts else t # replace_first task ts)"

definition update_task :: "ADKHostManager \<Rightarrow> Task \<Rightarrow> ADKHostManager" where
  "update_task self task = self\<lparr>self_tasks := replace_first task (self_tasks self)\<rparr>"

definition add_event :: "ADKHostManager \<Rightarrow> Event \<Rightarrow> ADKHostManager" where
  "add_event self event = self\<lparr>self_events := (self_events self)(Event_id event \<mapsto> event)\<rparr>"

definition attach_message_to_task ::
  "ADKHostManager \<Rightarrow> Message option \<Rightarrow> string \<Rightarrow> ADKHostManager" where
  "attach_message_to_task self message task_id =
     (case message of
        None \<Rightarrow> self
      | Some m \<Rightarrow> self\<lparr>self_task_map := (self_task_map self)(Message_messageId m \<mapsto> task_id)\<rparr>)"

text \<open>The id and the context id that \<^verbatim>\<open>getattr\<close> finds on each kind of argument.\<close>

fun arg_id :: "TaskCallbackArg \<Rightarrow> string" where
  "arg_id (ArgTask t) = Task_id t"
| "arg_id (ArgStatus e) = TaskStatusUpdateEvent_taskId e"
| "arg_id (ArgArtifact e) = TaskArtifactUpdateEvent_taskId e"

fun arg_contextId :: "TaskCallbackArg \<Rightarrow> string option" where
  "arg_contextId (ArgTask t) = Task_contextId t"
| "arg_contextId (ArgStatus e) = TaskStatusUpdateEvent_contextId e"
| "arg_contextId (ArgArtifact e) = TaskArtifactUpdateEvent_contextId e"

definition emit_event ::
  "Outside \<Rightarrow> ADKHostManager \<Rightarrow> TaskCallbackArg \<Rightarrow> AgentCard \<Rightarrow> ADKHostManager" where
  "emit_event out self task agent_card =
    (let context_id = arg_contextId task;
         fresh = (\<lambda>parts task_id.
           \<lparr>Message_role = agent, Message_parts = parts,
            Message_messageId = uuid_message out,
            Message_taskId = Some task_id, Message_contextId = context_id\<rparr>);
         content =
           (case task of
              ArgStatus e \<Rightarrow>
                (case TaskStatus_message (TaskStatusUpdateEvent_status e) of
                   Some m \<Rightarrow> m
                 | None \<Rightarrow>
                     fresh [TextPart (str_TaskState
                              (TaskStatus_state (TaskStatusUpdateEvent_status e)))]
                       (TaskStatusUpdateEvent_taskId e))
            | ArgArtifact e \<Rightarrow>
                fresh (Artifact_parts (TaskArtifactUpdateEvent_artifact e))
                  (TaskArtifactUpdateEvent_taskId e)
            | ArgTask t \<Rightarrow>
                (case TaskStatus_message (Task_status t) of
                   Some m \<Rightarrow> m
                 | None \<Rightarrow>
                     if list_or_empty (Task_artifacts t) \<noteq> [] then
                       fresh (concat (map Artifact_parts (list_or_empty (Task_artifacts t))))
                         (Task_id t)
                     else
                       fresh [TextPart (str_TaskState (TaskStatus_state (Task_status t)))]
                         (Task_id t)))
     in add_event self
          \<lparr>Event_id = uuid_event out, Event_actor = AgentCard_name agent_card,
           Event_content = content, Event_timestamp = utcnow out\<rparr>)"

text \<open>
  \<^verbatim>\<open>insert_message_history\<close> mutates the task it is given. When it runs, the caller has already
  assigned the event's status to the task, so \<^verbatim>\<open>task.status.message\<close> is the message passed in.
\<close>

definition insert_message_history :: "Task \<Rightarrow> Message option \<Rightarrow> Task" where
  "insert_message_history task message =
    (case message of
       None \<Rightarrow> task
     | Some m \<Rightarrow>
         (let task1 = (if Task_history task = None then task\<lparr>Task_history := Some []\<rparr> else task);
              history = list_or_empty (Task_history task1)
          in
          if Message_messageId m = [] then task1
          else
            (case TaskStatus_message (Task_status task1) of
               None \<Rightarrow> task1
             | Some sm \<Rightarrow>
                 if history \<noteq> [] \<and> Message_messageId sm \<notin> set (map Message_messageId history)
                 then task1\<lparr>Task_history := Some (history @ [sm])\<rparr>
                 else if history = [] then task1\<lparr>Task_history := Some [sm]\<rparr>
                 else task1)))"

text \<open>
  \<^verbatim>\<open>add_or_get_task\<close> for an update event: the task of the event's \<^verbatim>\<open>taskId\<close> (a fresh
  identifier when that is empty) as stored, or a new task in state \<^verbatim>\<open>submitted\<close> appended to
  the list. The code returns a reference into the list; the model returns the value, and the
  caller writes its changes back with \<open>update_task\<close>, which addresses the same list entry
  (the first one of that id).
\<close>

definition basic_task :: "string \<Rightarrow> string option \<Rightarrow> Task" where
  "basic_task task_id context_id =
     \<lparr>Task_id = task_id, Task_contextId = context_id,
      Task_status = \<lparr>TaskStatus_state = submitted, TaskStatus_message = None,
                     TaskStatus_timestamp = None\<rparr>,
      Task_artifacts = Some [], Task_history = None\<rparr>"

definition add_or_get_task ::
  "Outside \<Rightarrow> ADKHostManager \<Rightarrow> string \<Rightarrow> string option \<Rightarrow> ADKHostManager \<times> Task" where
  "add_or_get_task out self event_taskId event_contextId =
    (let task_id = (if event_taskId = [] then uuid_task out else event_taskId) in
     case find (\<lambda>x. Task_id x = task_id) (self_tasks self) of
       Some current_task \<Rightarrow> (self, current_task)
     | None \<Rightarrow>
         (let current_task = basic_task task_id event_contextId
          in (add_task self current_task, current_task)))"

text \<open>
  The \<^verbatim>\<open>finally\<close> block of \<^verbatim>\<open>task_callback\<close>: the task id leaves the set of ids being
  processed and its depth counter goes down by one, and is dropped at zero.
\<close>

definition callback_finally :: "ADKHostManager \<Rightarrow> string \<Rightarrow> ADKHostManager" where
  "callback_finally self task_id =
    (let self1 = self\<lparr>self_processing_tasks := self_processing_tasks self - {task_id}\<rparr> in
     case self_callback_depth self1 task_id of
       None \<Rightarrow> self1
     | Some d \<Rightarrow>
         if max 0 (d - 1) = 0
         then self1\<lparr>self_callback_depth := (self_callback_depth self1)(task_id := None)\<rparr>
         else self1\<lparr>self_callback_depth :=
                (self_callback_depth self1)(task_id \<mapsto> max 0 (d - 1))\<rparr>)"

definition or_unknown :: "string option \<Rightarrow> string option" where
  "or_unknown c = (case c of None \<Rightarrow> Some ''unknown''
                   | Some x \<Rightarrow> if x = [] then Some ''unknown'' else Some x)"

definition task_callback ::
  "Outside \<Rightarrow> ADKHostManager \<Rightarrow> TaskCallbackArg \<Rightarrow> AgentCard \<Rightarrow> ADKHostManager \<times> Task" where
  "task_callback out self task agent_card =
    (let task_id = arg_id task in
     if task_id \<in> self_processing_tasks self then
       (self, basic_task task_id (or_unknown (arg_contextId task)))
     else
       (let current_depth = (case self_callback_depth self task_id of None \<Rightarrow> 0 | Some d \<Rightarrow> d) in
        if current_depth > 5 then
          (self\<lparr>self_callback_depth := (self_callback_depth self)(task_id \<mapsto> 0)\<rparr>,
           basic_task task_id (or_unknown (arg_contextId task)))
        else
          (let self1 = self\<lparr>self_processing_tasks := insert task_id (self_processing_tasks self),
                            self_callback_depth :=
                              (self_callback_depth self)(task_id \<mapsto> current_depth + 1)\<rparr>;
               self2 = emit_event out self1 task agent_card;
               (self3, result) =
                 (case task of
                    ArgStatus e \<Rightarrow>
                      (let (s, current_task) =
                             add_or_get_task out self2 (TaskStatusUpdateEvent_taskId e)
                               (TaskStatusUpdateEvent_contextId e);
                           current_task1 =
                             current_task\<lparr>Task_status := TaskStatusUpdateEvent_status e\<rparr>;
                           s1 = attach_message_to_task s
                                  (TaskStatus_message (TaskStatusUpdateEvent_status e))
                                  (Task_id current_task1);
                           current_task2 =
                             insert_message_history current_task1
                               (TaskStatus_message (TaskStatusUpdateEvent_status e))
                       in (update_task s1 current_task2, current_task2))
                  | ArgArtifact e \<Rightarrow>
                      (let (s, current_task) =
                             add_or_get_task out self2 (TaskArtifactUpdateEvent_taskId e)
                               (TaskArtifactUpdateEvent_contextId e);
                           (chunks, current_task1) =
                             process_artifact_event (self_artifact_chunks s) current_task e;
                           s1 = s\<lparr>self_artifact_chunks := chunks\<rparr>
                       in (update_task s1 current_task1, current_task1))
                  | ArgTask t \<Rightarrow>
                      (let s = attach_message_to_task self2
                                 (TaskStatus_message (Task_status t)) (Task_id t)
                       in if \<not> (\<exists>x \<in> set (self_tasks self2). Task_id x = Task_id t)
                          then (add_task s t, t)
                          else (update_task s t, t)))
           in (callback_finally self3 task_id, result))))"

text \<open>The terminal states of a task: completed, canceled and failed.\<close>

definition terminal :: "TaskState \<Rightarrow> bool" where
  "terminal st \<longleftrightarrow> st = completed \<or> st = canceled \<or> st = failed"

section \<open>The agent selection of the combined server (version 0.2)\<close>

text \<open>
  Version 0.2 serves a currency agent and an element agent behind one handler, which
  picks the agent for each query. The module \<^verbatim>\<open>0.2/app.py\<close> holds the keyword scorer
  (\<^verbatim>\<open>analyze_request_by_keywords\<close>), the LLM arbiter (\<^verbatim>\<open>analyze_request\<close>) and the combiner in
  \<^verbatim>\<open>SmartRequestHandler.execute\<close>; \<^verbatim>\<open>0.2/__main__.py\<close> is a second copy of the module that adds
  the query cache. Python's \<^verbatim>\<open>float\<close> values (confidences, clock readings) are modelled
  as real numbers, and a string is a list of characters, one list element for each
  character that Python counts.
\<close>

subsection \<open>Strings\<close>

text \<open>
  \<^verbatim>\<open>str.lower\<close> and \<^verbatim>\<open>str.isspace\<close> on the characters up to U+00FF, which are the ones a
  \<open>char\<close> holds: the capital letters are \<^verbatim>\<open>A\<close> to \<^verbatim>\<open>Z\<close> and U+00C0 to U+00DE without the
  multiplication sign U+00D7, each 32 below its small letter; white space is U+0009 to
  U+000D, U+001C to U+0020, U+0085 and U+00A0. Characters above U+00FF are outside the
  model.
\<close>

definition lower_char :: "char \<Rightarrow> char" where
  "lower_char c =
     (let n = (of_char c :: nat)
      in if (65 \<le> n \<and> n \<le> 90) \<or> (192 \<le> n \<and> n \<le> 222 \<and> n \<noteq> 215)
         then char_of (n + 32) else c)"

definition lower :: "string \<Rightarrow> string" where
  "lower s = map lower_char s"

definition isspace :: "char \<Rightarrow> bool" where
  "isspace c =
     (let n = (of_char c :: nat)
      in (9 \<le> n \<and> n \<le> 13) \<or> (28 \<le> n \<and> n \<le> 32) \<or> n = 133 \<or> n = 160)"

text \<open>
  \<^verbatim>\<open>s.split()\<close>: the maximal runs of characters that are not white space; \<open>cur\<close> is the
  run being read.
\<close>

fun split_run :: "string \<Rightarrow> string \<Rightarrow> string list" where
  "split_run cur [] = (if cur = [] then [] else [cur])"
| "split_run cur (c # cs) =
     (if isspace c then (if cur = [] then split_run [] cs else cur # split_run [] cs)
      else split_run (cur @ [c]) cs)"

definition split :: "string \<Rightarrow> string list" where
  "split s = split_run [] s"

text \<open>\<^verbatim>\<open>sep.join(words)\<close>.\<close>

fun join :: "string \<Rightarrow> string list \<Rightarrow> string" where
  "join sep [] = []"
| "join sep [w] = w"
| "join sep (w # v # ws) = w @ sep @ join sep (v # ws)"

text \<open>
  \<^verbatim>\<open>text.find(term)\<close>: the lowest index at which \<^verbatim>\<open>term\<close> occurs in \<^verbatim>\<open>text\<close>; Python's \<^verbatim>\<open>-1\<close>
  is \<open>None\<close>. The first argument of \<open>find_from\<close> is the index of the position being tried.
\<close>

fun find_from :: "nat \<Rightarrow> string \<Rightarrow> string \<Rightarrow> nat option" where
  "find_from i [] term = (if term = [] then Some i else None)"
| "find_from i (c # cs) term =
     (if take (length term) (c # cs) = term then Some i else find_from (Suc i) cs term)"

definition find_str :: "string \<Rightarrow> string \<Rightarrow> nat option" where
  "find_str text term = find_from 0 text term"

text \<open>The slice \<^verbatim>\<open>text[start:end]\<close> for indices that are not negative.\<close>

definition slice :: "string \<Rightarrow> nat \<Rightarrow> nat \<Rightarrow> string" where
  "slice text start stop = take (stop - start) (drop start text)"

subsection \<open>The context window of an ambiguous term\<close>

text \<open>
  \<^verbatim>\<open>analyze_ambiguous_term_context(text, term)\<close> first cuts the window of the text around the
  first occurrence of the term and then counts indicator words inside the window. The
  cut, lines 331 to 343 of \<^verbatim>\<open>app.py\<close>: \<open>None\<close> stands for the early return of
  \<^verbatim>\<open>'unknown'\<close> when the term does not occur.
\<close>

definition window_text :: "nat \<Rightarrow> string \<Rightarrow> string \<Rightarrow> string option" where
  "window_text window_size text term =
     (case find_str text term of
        None \<Rightarrow> None
      | Some term_pos \<Rightarrow>
          (let start = nat (max 0 (int term_pos - int window_size));
               stop = min (length text) (term_pos + length term + window_size)
           in Some (slice text start stop)))"

definition app_window_size :: nat where
  "app_window_size = 50"

definition app_window_text :: "string \<Rightarrow> string \<Rightarrow> string option" where
  "app_window_text text term = window_text app_window_size text term"

text \<open>
  The copy of the function in \<^verbatim>\<open>__main__.py\<close> (lines 507 to 519) has the window size 100,
  looks for the term without regard to case and lowers the window.
\<close>

definition main_window_size :: nat where
  "main_window_size = 100"

definition main_window_text :: "string \<Rightarrow> string \<Rightarrow> string option" where
  "main_window_text text term =
     (case find_str (lower text) (lower term) of
        None \<Rightarrow> None
      | Some term_pos \<Rightarrow>
          (let start = nat (max 0 (int term_pos - int main_window_size));
               stop = min (length text) (term_pos + length term + main_window_size)
           in Some (lower (slice text start stop))))"

subsection \<open>The arbiter and the combiner\<close>

text \<open>
  What awaiting a call gives: a value, or an exception that \<^verbatim>\<open>except Exception\<close> catches
  (with its message).
\<close>

datatype 'a awaited = Returns 'a | Raises string

text \<open>\<^verbatim>\<open>needle in haystack\<close> on strings.\<close>

definition contains :: "string \<Rightarrow> string \<Rightarrow> bool" where
  "contains haystack needle \<longleftrightarrow> find_str haystack needle \<noteq> None"

text \<open>
  \<^verbatim>\<open>analyze_request\<close> of \<^verbatim>\<open>app.py\<close>. The call of the model (\<^verbatim>\<open>model.ainvoke\<close>) is the input
  \<open>ainvoke\<close>, which gives the text of the reply or raises; the scorer is an input as well.
  The whole body is inside \<^verbatim>\<open>try\<close>: a failure of the model is caught here and answered with
  the scorer's pick. The reply is lowered (\<^verbatim>\<open>strip\<close> does not change whether it contains
  the word).
\<close>

definition analyze_request ::
  "(string \<Rightarrow> string \<times> real) \<Rightarrow> (string \<Rightarrow> string awaited) \<Rightarrow> string \<Rightarrow> string awaited" where
  "analyze_request analyze_request_by_keywords ainvoke request =
     (case ainvoke request of
        Returns content \<Rightarrow>
          Returns (if contains (lower content) ''currency'' then ''currency'' else ''element'')
      | Raises e \<Rightarrow> Returns (fst (analyze_request_by_keywords request)))"

text \<open>
  The end of \<^verbatim>\<open>analyze_request_by_keywords\<close> (lines 295 to 315 of \<^verbatim>\<open>app.py\<close>): the verdict
  from the two weighted scores. A query in which no keyword occurs has both scores 0.
\<close>

definition keyword_verdict :: "real \<Rightarrow> real \<Rightarrow> string \<times> real" where
  "keyword_verdict currency_score element_score =
     (let total_score = currency_score + element_score in
      if total_score > 0 then
        (if currency_score > element_score then (''currency'', currency_score / total_score)
         else (''element'', element_score / total_score))
      else (''element'', 0.5))"

text \<open>
  The selection in \<^verbatim>\<open>SmartRequestHandler.execute\<close> (lines 483 to 519 of \<^verbatim>\<open>app.py\<close>): the
  scorer's verdict, then the arbiter \<^verbatim>\<open>analyze_request\<close> inside \<^verbatim>\<open>try\<close>, then the combination.
  The scorer and the call of the model are inputs. The \<^verbatim>\<open>except\<close> branch is the case
  \<open>Raises\<close>. The field \<open>decision_method\<close> is the label that the code logs for the branch
  taken.
\<close>

datatype decision_method =
  LLM_confidence_first | Keywords_high_confidence | Consistent_result | Keywords_LLM_failed

record selection =
  agent_type :: string
  confidence :: real
  decision_method :: decision_method

definition execute ::
  "(string \<Rightarrow> string \<times> real) \<Rightarrow> (string \<Rightarrow> string awaited) \<Rightarrow> string \<Rightarrow> selection" where
  "execute analyze_request_by_keywords ainvoke user_input =
     (let (keyword_result, keyword_confidence) = analyze_request_by_keywords user_input in
      case analyze_request analyze_request_by_keywords ainvoke user_input of
        Returns llm_result \<Rightarrow>
          if keyword_result \<noteq> llm_result then
            (if keyword_confidence < 0.65 then
               \<lparr>agent_type = llm_result, confidence = 0.8,
                decision_method = LLM_confidence_first\<rparr>
             else
               \<lparr>agent_type = keyword_result, confidence = keyword_confidence,
                decision_method = Keywords_high_confidence\<rparr>)
          else
            \<lparr>agent_type = keyword_result, confidence = max keyword_confidence 0.85,
             decision_method = Consistent_result\<rparr>
      | Raises e \<Rightarrow>
          \<lparr>agent_type = keyword_result, confidence = keyword_confidence,
           decision_method = Keywords_LLM_failed\<rparr>)"

subsection \<open>The query cache\<close>

text \<open>
  \<^verbatim>\<open>QueryCache\<close> (\<^verbatim>\<open>0.2/__main__.py\<close>, lines 25 to 124). The dictionary \<^verbatim>\<open>self.cache\<close> is a list
  of keys with their entries in the order of the dictionary: Python keeps the order of
  insertion, a key that is written again keeps its place, and \<^verbatim>\<open>min\<close> over the keys returns
  the first of several minimal ones. An entry is the result with the time stamp of the
  write. The reading of the clock, \<^verbatim>\<open>time.time()\<close>, is the argument \<open>now\<close>.
\<close>

record 'r QueryCache =
  QueryCache_cache :: "(string \<times> 'r \<times> real) list"
  QueryCache_max_size :: int
  QueryCache_ttl :: real

definition QueryCache_init :: "int \<Rightarrow> real \<Rightarrow> 'r QueryCache" where
  "QueryCache_init max_size ttl =
     \<lparr>QueryCache_cache = [], QueryCache_max_size = max_size, QueryCache_ttl = ttl\<rparr>"


definition normalize_query :: "string \<Rightarrow> string" where
  "normalize_query query = join '' '' (split (lower query))"

fun dict_set :: "string \<Rightarrow> 'v \<Rightarrow> (string \<times> 'v) list \<Rightarrow> (string \<times> 'v) list" where
  "dict_set k v [] = [(k, v)]"
| "dict_set k v ((k', v') # rest) =
     (if k' = k then (k, v) # rest else (k', v') # dict_set k v rest)"

definition dict_del :: "string \<Rightarrow> (string \<times> 'v) list \<Rightarrow> (string \<times> 'v) list" where
  "dict_del k d = filter (\<lambda>(k', v). k' \<noteq> k) d"


text \<open>
  \<^verbatim>\<open>min(self.cache.keys(), key=...)\<close>: the running minimum is replaced only by a strictly
  smaller time stamp; on an empty dictionary \<^verbatim>\<open>min\<close> raises \<^verbatim>\<open>ValueError\<close>.
\<close>

fun min_from :: "string \<times> real \<Rightarrow> (string \<times> 'r \<times> real) list \<Rightarrow> string" where
  "min_from (bk, bt) [] = bk"
| "min_from (bk, bt) ((k, r, t) # rest) =
     (if t < bt then min_from (k, t) rest else min_from (bk, bt) rest)"

datatype py_error = ValueError string

fun oldest_key :: "(string \<times> 'r \<times> real) list \<Rightarrow> py_error + string" where
  "oldest_key [] = Inl (ValueError ''min() arg is an empty sequence'')"
| "oldest_key ((k, r, t) # rest) = Inr (min_from (k, t) rest)"

definition QueryCache_set ::
  "real \<Rightarrow> string \<Rightarrow> 'r \<Rightarrow> 'r QueryCache \<Rightarrow> py_error + 'r QueryCache" where
  "QueryCache_set now query result self =
     (let key = normalize_query query in
      if int (length (QueryCache_cache self)) \<ge> QueryCache_max_size self then
        (case oldest_key (QueryCache_cache self) of
           Inl err \<Rightarrow> Inl err
         | Inr oldest \<Rightarrow>
             Inr (self\<lparr>QueryCache_cache :=
                    dict_set key (result, now) (dict_del oldest (QueryCache_cache self))\<rparr>))
      else
        Inr (self\<lparr>QueryCache_cache := dict_set key (result, now) (QueryCache_cache self)\<rparr>))"

section \<open>The wire types of version 0.1\<close>

text \<open>
  \<^verbatim>\<open>0.1/common/types.py\<close> declares the wire types as Pydantic models. Decoding a value is
  validating a parsed JSON value against the model, and encoding is \<^verbatim>\<open>model_dump\<close>, with or
  without \<^verbatim>\<open>exclude_none\<close> (the client sends \<^verbatim>\<open>request.model_dump()\<close>, the task manager
  pushes \<^verbatim>\<open>task.model_dump(exclude_none=True)\<close>). The decoders below are written from the
  declarations: a field without a default is required, a field with a default may be
  missing, a field of type \<^verbatim>\<open>T | None\<close> takes \<^verbatim>\<open>null\<close>, keys that the model does not declare
  are ignored, and a validator of the model runs after its fields. They take a JSON value
  of the declared type as it is and do not model the conversions that the validator
  applies to values of other types. Several classes have the name of a class of the web UI
  section above; these carry the suffix \<open>01\<close>.
\<close>

datatype json =
  JNull | JBool bool | JInt int | JString string | JArray "json list"
  | JObject "(string \<times> json) list"

type_synonym dict = "(string \<times> json) list"

definition as_str :: "json \<Rightarrow> string option" where
  "as_str j = (case j of JString s \<Rightarrow> Some s | _ \<Rightarrow> None)"

definition as_int :: "json \<Rightarrow> int option" where
  "as_int j = (case j of JInt i \<Rightarrow> Some i | _ \<Rightarrow> None)"

definition as_bool :: "json \<Rightarrow> bool option" where
  "as_bool j = (case j of JBool b \<Rightarrow> Some b | _ \<Rightarrow> None)"

definition as_dict :: "json \<Rightarrow> dict option" where
  "as_dict j = (case j of JObject d \<Rightarrow> Some d | _ \<Rightarrow> None)"

definition as_list :: "(json \<Rightarrow> 'a option) \<Rightarrow> json \<Rightarrow> 'a list option" where
  "as_list dec j = (case j of JArray js \<Rightarrow> those (map dec js) | _ \<Rightarrow> None)"

text \<open>
  A field without a default, a field of an optional type with the default \<^verbatim>\<open>None\<close>, and a
  field with another default. \<open>None\<close> as the result is the validation error.
\<close>

definition required :: "(json \<Rightarrow> 'a option) \<Rightarrow> dict \<Rightarrow> string \<Rightarrow> 'a option" where
  "required dec d k = (case map_of d k of None \<Rightarrow> None | Some j \<Rightarrow> dec j)"

definition optional :: "(json \<Rightarrow> 'a option) \<Rightarrow> dict \<Rightarrow> string \<Rightarrow> 'a option option" where
  "optional dec d k =
     (case map_of d k of
        None \<Rightarrow> Some None
      | Some j \<Rightarrow> if j = JNull then Some None else map_option Some (dec j))"

definition defaulted :: "(json \<Rightarrow> 'a option) \<Rightarrow> 'a \<Rightarrow> dict \<Rightarrow> string \<Rightarrow> 'a option" where
  "defaulted dec a d k = (case map_of d k of None \<Rightarrow> Some a | Some j \<Rightarrow> dec j)"

text \<open>
  What \<^verbatim>\<open>model_dump\<close> emits for a field of an optional type: \<^verbatim>\<open>null\<close> for \<^verbatim>\<open>None\<close>, or nothing
  under \<^verbatim>\<open>exclude_none\<close>.
\<close>

definition field_opt :: "bool \<Rightarrow> string \<Rightarrow> ('a \<Rightarrow> json) \<Rightarrow> 'a option \<Rightarrow> dict" where
  "field_opt exclude_none k enc v =
     (case v of
        None \<Rightarrow> if exclude_none then [] else [(k, JNull)]
      | Some x \<Rightarrow> [(k, enc x)])"

subsection \<open>Task states\<close>

datatype TaskState01 = SUBMITTED | WORKING | COMPLETED | FAILED

fun TaskState01_value :: "TaskState01 \<Rightarrow> string" where
  "TaskState01_value SUBMITTED = ''submitted''"
| "TaskState01_value WORKING = ''working''"
| "TaskState01_value COMPLETED = ''completed''"
| "TaskState01_value FAILED = ''failed''"

definition decode_TaskState :: "json \<Rightarrow> TaskState01 option" where
  "decode_TaskState j =
     (case j of
        JString s \<Rightarrow>
          if s = ''submitted'' then Some SUBMITTED
          else if s = ''working'' then Some WORKING
          else if s = ''completed'' then Some COMPLETED
          else if s = ''failed'' then Some FAILED
          else None
      | _ \<Rightarrow> None)"

subsection \<open>Parts\<close>

record FileContent =
  FileContent_name :: "string option"
  FileContent_mimeType :: "string option"
  FileContent_bytes :: "string option"
  FileContent_uri :: "string option"

text \<open>The truth value of a \<^verbatim>\<open>str | None\<close>: \<^verbatim>\<open>None\<close> and the empty string are false.\<close>

fun str_truthy :: "string option \<Rightarrow> bool" where
  "str_truthy None = False"
| "str_truthy (Some s) = (s \<noteq> [])"

definition check_content :: "FileContent \<Rightarrow> py_error + FileContent" where
  "check_content self =
     (if \<not> (str_truthy (FileContent_bytes self) \<or> str_truthy (FileContent_uri self)) then
        Inl (ValueError ''Either 'bytes' or 'uri' must be present in the file data'')
      else if str_truthy (FileContent_bytes self) \<and> str_truthy (FileContent_uri self) then
        Inl (ValueError ''Only one of 'bytes' or 'uri' can be present in the file data'')
      else Inr self)"

definition decode_FileContent :: "json \<Rightarrow> FileContent option" where
  "decode_FileContent j =
     (case j of
        JObject d \<Rightarrow>
          do {
            name \<leftarrow> optional as_str d ''name'';
            mimeType \<leftarrow> optional as_str d ''mimeType'';
            bytes \<leftarrow> optional as_str d ''bytes'';
            uri \<leftarrow> optional as_str d ''uri'';
            (case check_content
                    \<lparr>FileContent_name = name, FileContent_mimeType = mimeType,
                     FileContent_bytes = bytes, FileContent_uri = uri\<rparr> of
               Inl err \<Rightarrow> None
             | Inr self \<Rightarrow> Some self)
          }
      | _ \<Rightarrow> None)"

definition encode_FileContent :: "bool \<Rightarrow> FileContent \<Rightarrow> json" where
  "encode_FileContent exclude_none f =
     JObject (field_opt exclude_none ''name'' JString (FileContent_name f)
              @ field_opt exclude_none ''mimeType'' JString (FileContent_mimeType f)
              @ field_opt exclude_none ''bytes'' JString (FileContent_bytes f)
              @ field_opt exclude_none ''uri'' JString (FileContent_uri f))"

text \<open>
  \<^verbatim>\<open>Part\<close> is the union of the three part models, told apart by the field \<^verbatim>\<open>type\<close>; each
  constructor carries the fields of its model after \<^verbatim>\<open>type\<close>, the last one being
  \<^verbatim>\<open>metadata\<close>.
\<close>

datatype Part01 =
  TextPart01 string "dict option"
  | FilePart01 FileContent "dict option"
  | DataPart01 dict "dict option"

definition decode_Part :: "json \<Rightarrow> Part01 option" where
  "decode_Part j =
     (case j of
        JObject d \<Rightarrow>
          (case map_of d ''type'' of
             Some (JString t) \<Rightarrow>
               if t = ''text'' then
                 do {
                   text \<leftarrow> required as_str d ''text'';
                   metadata \<leftarrow> optional as_dict d ''metadata'';
                   Some (TextPart01 text metadata)
                 }
               else if t = ''file'' then
                 do {
                   file \<leftarrow> required decode_FileContent d ''file'';
                   metadata \<leftarrow> optional as_dict d ''metadata'';
                   Some (FilePart01 file metadata)
                 }
               else if t = ''data'' then
                 do {
                   data \<leftarrow> required as_dict d ''data'';
                   metadata \<leftarrow> optional as_dict d ''metadata'';
                   Some (DataPart01 data metadata)
                 }
               else None
           | _ \<Rightarrow> None)
      | _ \<Rightarrow> None)"

fun encode_Part :: "bool \<Rightarrow> Part01 \<Rightarrow> json" where
  "encode_Part exclude_none (TextPart01 text metadata) =
     JObject ([(''type'', JString ''text''), (''text'', JString text)]
              @ field_opt exclude_none ''metadata'' JObject metadata)"
| "encode_Part exclude_none (FilePart01 file metadata) =
     JObject ([(''type'', JString ''file''), (''file'', encode_FileContent exclude_none file)]
              @ field_opt exclude_none ''metadata'' JObject metadata)"
| "encode_Part exclude_none (DataPart01 data metadata) =
     JObject ([(''type'', JString ''data''), (''data'', JObject data)]
              @ field_opt exclude_none ''metadata'' JObject metadata)"

subsection \<open>Messages, task status, artifacts and tasks\<close>

datatype Role01 = role_user | role_agent

definition decode_Role :: "json \<Rightarrow> Role01 option" where
  "decode_Role j =
     (case j of
        JString s \<Rightarrow>
          if s = ''user'' then Some role_user
          else if s = ''agent'' then Some role_agent
          else None
      | _ \<Rightarrow> None)"

fun encode_Role :: "Role01 \<Rightarrow> json" where
  "encode_Role role_user = JString ''user''"
| "encode_Role role_agent = JString ''agent''"

record Message01 =
  Message01_role :: Role01
  Message01_parts :: "Part01 list"
  Message01_metadata :: "dict option"

definition decode_Message :: "json \<Rightarrow> Message01 option" where
  "decode_Message j =
     (case j of
        JObject d \<Rightarrow>
          do {
            role \<leftarrow> required decode_Role d ''role'';
            parts \<leftarrow> required (as_list decode_Part) d ''parts'';
            metadata \<leftarrow> optional as_dict d ''metadata'';
            Some \<lparr>Message01_role = role, Message01_parts = parts,
                  Message01_metadata = metadata\<rparr>
          }
      | _ \<Rightarrow> None)"

definition encode_Message :: "bool \<Rightarrow> Message01 \<Rightarrow> json" where
  "encode_Message exclude_none m =
     JObject ([(''role'', encode_Role (Message01_role m)),
               (''parts'', JArray (map (encode_Part exclude_none) (Message01_parts m)))]
              @ field_opt exclude_none ''metadata'' JObject (Message01_metadata m))"

text \<open>
  The time stamp of a status is a \<^verbatim>\<open>datetime\<close>: the type \<open>'dt\<close>. Its default is the clock
  (\<^verbatim>\<open>datetime.now\<close>), the input \<open>now\<close>; it is decoded from a string by the library's parser,
  the input \<open>fromiso\<close>, and encoded by \<^verbatim>\<open>serialize_dt\<close>, which is \<^verbatim>\<open>dt.isoformat()\<close>, the input
  \<open>isoformat\<close>.
\<close>

record 'dt TaskStatus01 =
  TaskStatus01_state :: TaskState01
  TaskStatus01_message :: "Message01 option"
  TaskStatus01_timestamp :: 'dt

definition decode_datetime :: "(string \<Rightarrow> 'dt option) \<Rightarrow> json \<Rightarrow> 'dt option" where
  "decode_datetime fromiso j = (case j of JString s \<Rightarrow> fromiso s | _ \<Rightarrow> None)"

definition decode_TaskStatus ::
  "(string \<Rightarrow> 'dt option) \<Rightarrow> 'dt \<Rightarrow> json \<Rightarrow> 'dt TaskStatus01 option" where
  "decode_TaskStatus fromiso now j =
     (case j of
        JObject d \<Rightarrow>
          do {
            state \<leftarrow> required decode_TaskState d ''state'';
            message \<leftarrow> optional decode_Message d ''message'';
            timestamp \<leftarrow> defaulted (decode_datetime fromiso) now d ''timestamp'';
            Some \<lparr>TaskStatus01_state = state, TaskStatus01_message = message,
                  TaskStatus01_timestamp = timestamp\<rparr>
          }
      | _ \<Rightarrow> None)"

definition encode_TaskStatus :: "('dt \<Rightarrow> string) \<Rightarrow> bool \<Rightarrow> 'dt TaskStatus01 \<Rightarrow> json" where
  "encode_TaskStatus isoformat exclude_none s =
     JObject ([(''state'', JString (TaskState01_value (TaskStatus01_state s)))]
              @ field_opt exclude_none ''message'' (encode_Message exclude_none)
                  (TaskStatus01_message s)
              @ [(''timestamp'', JString (isoformat (TaskStatus01_timestamp s)))])"

record Artifact01 =
  Artifact01_name :: "string option"
  Artifact01_description :: "string option"
  Artifact01_parts :: "Part01 list"
  Artifact01_metadata :: "dict option"
  Artifact01_index :: int
  Artifact01_append :: "bool option"
  Artifact01_lastChunk :: "bool option"

definition decode_Artifact :: "json \<Rightarrow> Artifact01 option" where
  "decode_Artifact j =
     (case j of
        JObject d \<Rightarrow>
          do {
            name \<leftarrow> optional as_str d ''name'';
            description \<leftarrow> optional as_str d ''description'';
            parts \<leftarrow> required (as_list decode_Part) d ''parts'';
            metadata \<leftarrow> optional as_dict d ''metadata'';
            index \<leftarrow> defaulted as_int 0 d ''index'';
            append \<leftarrow> optional as_bool d ''append'';
            lastChunk \<leftarrow> optional as_bool d ''lastChunk'';
            Some \<lparr>Artifact01_name = name, Artifact01_description = description,
                  Artifact01_parts = parts, Artifact01_metadata = metadata,
                  Artifact01_index = index, Artifact01_append = append,
                  Artifact01_lastChunk = lastChunk\<rparr>
          }
      | _ \<Rightarrow> None)"

definition encode_Artifact :: "bool \<Rightarrow> Artifact01 \<Rightarrow> json" where
  "encode_Artifact exclude_none a =
     JObject (field_opt exclude_none ''name'' JString (Artifact01_name a)
              @ field_opt exclude_none ''description'' JString (Artifact01_description a)
              @ [(''parts'', JArray (map (encode_Part exclude_none) (Artifact01_parts a)))]
              @ field_opt exclude_none ''metadata'' JObject (Artifact01_metadata a)
              @ [(''index'', JInt (Artifact01_index a))]
              @ field_opt exclude_none ''append'' JBool (Artifact01_append a)
              @ field_opt exclude_none ''lastChunk'' JBool (Artifact01_lastChunk a))"

record 'dt Task01 =
  Task01_id :: string
  Task01_sessionId :: "string option"
  Task01_status :: "'dt TaskStatus01"
  Task01_artifacts :: "Artifact01 list option"
  Task01_history :: "Message01 list option"
  Task01_metadata :: "dict option"

definition decode_Task :: "(string \<Rightarrow> 'dt option) \<Rightarrow> 'dt \<Rightarrow> json \<Rightarrow> 'dt Task01 option" where
  "decode_Task fromiso now j =
     (case j of
        JObject d \<Rightarrow>
          do {
            id \<leftarrow> required as_str d ''id'';
            sessionId \<leftarrow> optional as_str d ''sessionId'';
            status \<leftarrow> required (decode_TaskStatus fromiso now) d ''status'';
            artifacts \<leftarrow> optional (as_list decode_Artifact) d ''artifacts'';
            history \<leftarrow> optional (as_list decode_Message) d ''history'';
            metadata \<leftarrow> optional as_dict d ''metadata'';
            Some \<lparr>Task01_id = id, Task01_sessionId = sessionId, Task01_status = status,
                  Task01_artifacts = artifacts, Task01_history = history,
                  Task01_metadata = metadata\<rparr>
          }
      | _ \<Rightarrow> None)"

definition encode_Task :: "('dt \<Rightarrow> string) \<Rightarrow> bool \<Rightarrow> 'dt Task01 \<Rightarrow> json" where
  "encode_Task isoformat exclude_none t =
     JObject ([(''id'', JString (Task01_id t))]
              @ field_opt exclude_none ''sessionId'' JString (Task01_sessionId t)
              @ [(''status'', encode_TaskStatus isoformat exclude_none (Task01_status t))]
              @ field_opt exclude_none ''artifacts''
                  (\<lambda>as. JArray (map (encode_Artifact exclude_none) as)) (Task01_artifacts t)
              @ field_opt exclude_none ''history''
                  (\<lambda>ms. JArray (map (encode_Message exclude_none) ms)) (Task01_history t)
              @ field_opt exclude_none ''metadata'' JObject (Task01_metadata t))"

text \<open>
  The values that pass the validators of the models: a file content that
  \<^verbatim>\<open>check_content\<close> accepts, wherever one occurs. A value built by the constructors of the
  models is valid.
\<close>

definition valid_FileContent :: "FileContent \<Rightarrow> bool" where
  "valid_FileContent f \<longleftrightarrow> check_content f = Inr f"

fun valid_Part :: "Part01 \<Rightarrow> bool" where
  "valid_Part (FilePart01 file metadata) = valid_FileContent file"
| "valid_Part (TextPart01 text metadata) = True"
| "valid_Part (DataPart01 data metadata) = True"

definition valid_Message :: "Message01 \<Rightarrow> bool" where
  "valid_Message m \<longleftrightarrow> list_all valid_Part (Message01_parts m)"

definition valid_TaskStatus :: "'dt TaskStatus01 \<Rightarrow> bool" where
  "valid_TaskStatus s \<longleftrightarrow>
     (case TaskStatus01_message s of None \<Rightarrow> True | Some m \<Rightarrow> valid_Message m)"

definition valid_Artifact :: "Artifact01 \<Rightarrow> bool" where
  "valid_Artifact a \<longleftrightarrow> list_all valid_Part (Artifact01_parts a)"

definition valid_Task :: "'dt Task01 \<Rightarrow> bool" where
  "valid_Task t \<longleftrightarrow>
     valid_TaskStatus (Task01_status t)
     \<and> list_all valid_Artifact (list_or_empty (Task01_artifacts t))
     \<and> list_all valid_Message (list_or_empty (Task01_history t))"

subsection \<open>Requests, responses and errors\<close>

record AuthenticationInfo =
  AuthenticationInfo_schemes :: "string list"
  AuthenticationInfo_credentials :: "string option"
  AuthenticationInfo_extra :: dict

record PushNotificationConfig =
  PushNotificationConfig_url :: string
  PushNotificationConfig_token :: "string option"
  PushNotificationConfig_authentication :: "AuthenticationInfo option"

record TaskSendParams =
  TaskSendParams_id :: string
  TaskSendParams_sessionId :: string
  TaskSendParams_message :: Message01
  TaskSendParams_acceptedOutputModes :: "string list option"
  TaskSendParams_pushNotification :: "PushNotificationConfig option"
  TaskSendParams_historyLength :: "int option"
  TaskSendParams_metadata :: "dict option"

text \<open>The id of a JSON-RPC message has the type \<^verbatim>\<open>int | str | None\<close>.\<close>

datatype rpc_id = IdInt int | IdStr string

text \<open>
  A request of a class with a fixed method: apart from \<^verbatim>\<open>jsonrpc\<close> and \<^verbatim>\<open>method\<close>, which are
  literals, it has its id and its parameters.
\<close>

record 'p JSONRPCRequest =
  JSONRPCRequest_id :: "rpc_id option"
  JSONRPCRequest_params :: 'p

record JSONRPCError =
  JSONRPCError_code :: int
  JSONRPCError_message :: string
  JSONRPCError_data :: "json option"

record 'r JSONRPCResponse =
  JSONRPCResponse_id :: "rpc_id option"
  JSONRPCResponse_result :: "'r option"
  JSONRPCResponse_error :: "JSONRPCError option"

definition InvalidParamsError :: "string \<Rightarrow> JSONRPCError" where
  "InvalidParamsError message =
     \<lparr>JSONRPCError_code = - 32602, JSONRPCError_message = message, JSONRPCError_data = None\<rparr>"

definition InternalError :: "string \<Rightarrow> JSONRPCError" where
  "InternalError message =
     \<lparr>JSONRPCError_code = - 32603, JSONRPCError_message = message, JSONRPCError_data = None\<rparr>"

record 'dt TaskStatusUpdateEvent01 =
  TaskStatusUpdateEvent01_id :: string
  TaskStatusUpdateEvent01_status :: "'dt TaskStatus01"
  TaskStatusUpdateEvent01_final :: bool
  TaskStatusUpdateEvent01_metadata :: "dict option"

record TaskArtifactUpdateEvent01 =
  TaskArtifactUpdateEvent01_id :: string
  TaskArtifactUpdateEvent01_artifact :: Artifact01
  TaskArtifactUpdateEvent01_metadata :: "dict option"

text \<open>What the task manager puts on the queue of a subscriber.\<close>

datatype 'dt sse_event =
  StatusEvent "'dt TaskStatusUpdateEvent01"
  | ArtifactEvent TaskArtifactUpdateEvent01
  | ErrorEvent JSONRPCError

section \<open>The task manager of the element agent (version 0.1)\<close>

text \<open>
  \<^verbatim>\<open>AgentTaskManager\<close> (\<^verbatim>\<open>0.1/agents/task_manager.py\<close>) extends \<^verbatim>\<open>InMemoryTaskManager\<close> of the
  package \<^verbatim>\<open>common.server\<close>, which is not among the sources, as are \<^verbatim>\<open>common.server.utils\<close> and
  the push notification sender. The operations that the manager takes from there are
  inputs of the model, the record \<open>base\<close>, over a state \<open>'s\<close> of the store, the queues and
  the notifications sent; each takes the state and returns the new one where it has an
  effect. The agent is an input too: \<^verbatim>\<open>invoke\<close> returns a response or raises, and \<^verbatim>\<open>stream\<close>
  yields items and may raise after them. The clock reading that \<^verbatim>\<open>TaskStatus\<close> takes as its
  default time stamp is the input \<open>now\<close>.
\<close>

record ('s, 'dt) base =
  upsert_task :: "'s \<Rightarrow> TaskSendParams \<Rightarrow> 's"
  update_store :: "'s \<Rightarrow> string \<Rightarrow> 'dt TaskStatus01 \<Rightarrow> Artifact01 list \<Rightarrow> 's \<times> 'dt Task01"
  append_task_history :: "'dt Task01 \<Rightarrow> int option \<Rightarrow> 'dt Task01"
  base_set_push_notification_info :: "'s \<Rightarrow> string \<Rightarrow> PushNotificationConfig \<Rightarrow> 's"
  has_push_notification_info :: "'s \<Rightarrow> string \<Rightarrow> bool"
  get_push_notification_info :: "'s \<Rightarrow> string \<Rightarrow> PushNotificationConfig"
  send_push_notification :: "'s \<Rightarrow> string \<Rightarrow> 'dt Task01 \<Rightarrow> 's"
  verify_push_notification_url :: "string \<Rightarrow> bool"
  setup_sse_consumer :: "'s \<Rightarrow> string \<Rightarrow> bool \<Rightarrow> 's"
  enqueue_events_for_sse :: "'s \<Rightarrow> string \<Rightarrow> 'dt sse_event \<Rightarrow> 's"
  are_modalities_compatible :: "string list \<Rightarrow> string list \<Rightarrow> bool"
  new_incompatible_types_error :: "rpc_id option \<Rightarrow> JSONRPCError"

record ElementAPIResponse =
  ElementAPIResponse_content :: string
  ElementAPIResponse_require_user_input :: "bool option"
  ElementAPIResponse_is_task_complete :: "bool option"

record element_agent =
  invoke :: "string \<Rightarrow> string \<Rightarrow> py_error + ElementAPIResponse"
  stream :: "string \<Rightarrow> string \<Rightarrow> (string \<times> bool) list \<times> string option"

definition SUPPORTED_CONTENT_TYPES :: "string list" where
  "SUPPORTED_CONTENT_TYPES = [''text'', ''text/plain'']"

text \<open>
  \<^verbatim>\<open>_get_user_query\<close>. The parts of a decoded message are models, never dictionaries, so the
  branch for \<^verbatim>\<open>dict\<close> parts is not in the model.
\<close>

definition get_user_query :: "TaskSendParams \<Rightarrow> py_error + string" where
  "get_user_query task_send_params =
     (case Message01_parts (TaskSendParams_message task_send_params) of
        [] \<Rightarrow> Inl (ValueError ''Message parts cannot be empty'')
      | part # rest \<Rightarrow>
          (case part of
             TextPart01 text metadata \<Rightarrow> Inr text
           | _ \<Rightarrow> Inl (ValueError ''Only text parts are supported'')))"

text \<open>\<^verbatim>\<open>_validate_request\<close>: the error of the response it returns, or \<open>None\<close>.\<close>

definition validate_request ::
  "('s, 'dt) base \<Rightarrow> TaskSendParams JSONRPCRequest \<Rightarrow> JSONRPCError option" where
  "validate_request base request =
     (let task_send_params = JSONRPCRequest_params request;
          output_modes = list_or_empty (TaskSendParams_acceptedOutputModes task_send_params)
      in
      if \<not> are_modalities_compatible base output_modes SUPPORTED_CONTENT_TYPES then
        Some (new_incompatible_types_error base (JSONRPCRequest_id request))
      else
        (case TaskSendParams_pushNotification task_send_params of
           Some cfg \<Rightarrow>
             if PushNotificationConfig_url cfg = [] then
               Some (InvalidParamsError ''Push notification URL is missing'')
             else None
         | None \<Rightarrow> None))"

definition set_push_notification_info ::
  "('s, 'dt) base \<Rightarrow> 's \<Rightarrow> string \<Rightarrow> PushNotificationConfig \<Rightarrow> 's \<times> bool" where
  "set_push_notification_info base s task_id push_notification_config =
     (if \<not> verify_push_notification_url base (PushNotificationConfig_url push_notification_config)
      then (s, False)
      else (base_set_push_notification_info base s task_id push_notification_config, True))"

definition send_task_notification :: "('s, 'dt) base \<Rightarrow> 's \<Rightarrow> 'dt Task01 \<Rightarrow> 's" where
  "send_task_notification base s task =
     (if \<not> has_push_notification_info base s (Task01_id task) then s
      else send_push_notification base s
             (PushNotificationConfig_url (get_push_notification_info base s (Task01_id task)))
             task)"

definition agent_message :: "string \<Rightarrow> Message01" where
  "agent_message content =
     \<lparr>Message01_role = role_agent, Message01_parts = [TextPart01 content None],
      Message01_metadata = None\<rparr>"

definition new_artifact :: "Part01 list \<Rightarrow> bool option \<Rightarrow> Artifact01" where
  "new_artifact parts append_mode =
     \<lparr>Artifact01_name = None, Artifact01_description = None, Artifact01_parts = parts,
      Artifact01_metadata = None, Artifact01_index = 0, Artifact01_append = append_mode,
      Artifact01_lastChunk = None\<rparr>"

definition process_agent_response ::
  "('s, 'dt) base \<Rightarrow> 'dt \<Rightarrow> 's \<Rightarrow> TaskSendParams JSONRPCRequest \<Rightarrow> ElementAPIResponse
     \<Rightarrow> 's \<times> 'dt Task01 JSONRPCResponse" where
  "process_agent_response base now s request agent_response =
     (let task_send_params = JSONRPCRequest_params request;
          task_id = TaskSendParams_id task_send_params;
          history_length = TaskSendParams_historyLength task_send_params;
          parts = [TextPart01 (ElementAPIResponse_content agent_response) None];
          message = agent_message (ElementAPIResponse_content agent_response);
          complete = (\<not> (case ElementAPIResponse_require_user_input agent_response of
                        None \<Rightarrow> False | Some b \<Rightarrow> b)
                  \<and> (case ElementAPIResponse_is_task_complete agent_response of
                        None \<Rightarrow> True | Some b \<Rightarrow> b));
          task_status =
            \<lparr>TaskStatus01_state = (if complete then COMPLETED else FAILED),
             TaskStatus01_message = Some message, TaskStatus01_timestamp = now\<rparr>;
          (s1, task) = update_store base s task_id task_status
                         (if complete then [new_artifact parts None] else []);
          task_result = append_task_history base task history_length;
          s2 = send_task_notification base s1 task
      in (s2, \<lparr>JSONRPCResponse_id = JSONRPCRequest_id request,
                JSONRPCResponse_result = Some task_result, JSONRPCResponse_error = None\<rparr>))"

text \<open>
  \<^verbatim>\<open>on_send_task\<close>, the handler of \<^verbatim>\<open>tasks/send\<close>. Its result is the response it returns, or
  the exception that leaves it: the call of \<^verbatim>\<open>_get_user_query\<close> is not inside a \<^verbatim>\<open>try\<close>, and
  an exception of the agent is raised again as a \<^verbatim>\<open>ValueError\<close> (the model keeps the
  message of the agent's exception).
\<close>

definition error_response :: "rpc_id option \<Rightarrow> JSONRPCError \<Rightarrow> 'r JSONRPCResponse" where
  "error_response request_id err =
     \<lparr>JSONRPCResponse_id = request_id, JSONRPCResponse_result = None,
      JSONRPCResponse_error = Some err\<rparr>"

definition on_send_task ::
  "('s, 'dt) base \<Rightarrow> element_agent \<Rightarrow> 'dt \<Rightarrow> 's \<Rightarrow> TaskSendParams JSONRPCRequest
     \<Rightarrow> 's \<times> (py_error + 'dt Task01 JSONRPCResponse)" where
  "on_send_task base self_agent now s request =
     (let params = JSONRPCRequest_params request in
      case validate_request base request of
        Some err \<Rightarrow> (s, Inr (error_response (JSONRPCRequest_id request) err))
      | None \<Rightarrow>
          (let (s0, push_ok) =
                 (case TaskSendParams_pushNotification params of
                    Some cfg \<Rightarrow> set_push_notification_info base s (TaskSendParams_id params) cfg
                  | None \<Rightarrow> (s, True))
           in
           if \<not> push_ok then
             (s0, Inr (error_response (JSONRPCRequest_id request)
                         (InvalidParamsError ''Push notification URL is invalid'')))
           else
             (let s1 = upsert_task base s0 params;
                  (s2, task) =
                    update_store base s1 (TaskSendParams_id params)
                      \<lparr>TaskStatus01_state = WORKING, TaskStatus01_message = None,
                       TaskStatus01_timestamp = now\<rparr> [];
                  s3 = send_task_notification base s2 task
              in
              case get_user_query params of
                Inl err \<Rightarrow> (s3, Inl err)
              | Inr query \<Rightarrow>
                  (case invoke self_agent query (TaskSendParams_sessionId params) of
                     Inl (ValueError e) \<Rightarrow> (s3, Inl (ValueError e))
                   | Inr agent_response \<Rightarrow>
                       (case process_agent_response base now s3 request agent_response of
                          (s4, response) \<Rightarrow> (s4, Inr response))))))"

text \<open>
  \<^verbatim>\<open>_run_streaming_agent\<close>, the task that \<^verbatim>\<open>on_send_task_subscribe\<close> starts in the background.
  The query is read before the \<^verbatim>\<open>try\<close>, so its \<^verbatim>\<open>ValueError\<close> ends the background task; an
  exception while the items of the agent are handled is caught and becomes an
  \<^verbatim>\<open>InternalError\<close> on the queue. An item of the stream is its content and its flag
  \<^verbatim>\<open>is_task_complete\<close>.
\<close>

definition stream_item ::
  "('s, 'dt) base \<Rightarrow> 'dt \<Rightarrow> string \<Rightarrow> 's \<Rightarrow> string \<times> bool \<Rightarrow> 's" where
  "stream_item base now task_id s item =
     (let (content, is_task_complete) = item;
          parts = [TextPart01 content None];
          artifact = (if is_task_complete then Some (new_artifact parts (Some False)) else None);
          task_status =
            \<lparr>TaskStatus01_state = (if is_task_complete then COMPLETED else WORKING),
             TaskStatus01_message =
               (if is_task_complete then None else Some (agent_message content)),
             TaskStatus01_timestamp = now\<rparr>;
          (s1, latest_task) =
            update_store base s task_id task_status
              (case artifact of None \<Rightarrow> [] | Some a \<Rightarrow> [a]);
          s2 = send_task_notification base s1 latest_task;
          s3 = (case artifact of
                  None \<Rightarrow> s2
                | Some a \<Rightarrow>
                    enqueue_events_for_sse base s2 task_id
                      (ArtifactEvent \<lparr>TaskArtifactUpdateEvent01_id = task_id,
                                      TaskArtifactUpdateEvent01_artifact = a,
                                      TaskArtifactUpdateEvent01_metadata = None\<rparr>))
      in enqueue_events_for_sse base s3 task_id
           (StatusEvent \<lparr>TaskStatusUpdateEvent01_id = task_id,
                         TaskStatusUpdateEvent01_status = task_status,
                         TaskStatusUpdateEvent01_final = is_task_complete,
                         TaskStatusUpdateEvent01_metadata = None\<rparr>))"

definition run_streaming_agent ::
  "('s, 'dt) base \<Rightarrow> element_agent \<Rightarrow> 'dt \<Rightarrow> 's \<Rightarrow> TaskSendParams JSONRPCRequest
     \<Rightarrow> 's \<times> py_error option" where
  "run_streaming_agent base self_agent now s request =
     (let task_send_params = JSONRPCRequest_params request;
          task_id = TaskSendParams_id task_send_params
      in
      case get_user_query task_send_params of
        Inl err \<Rightarrow> (s, Some err)
      | Inr query \<Rightarrow>
          (case stream self_agent query (TaskSendParams_sessionId task_send_params) of
             (items, raised) \<Rightarrow>
               (let s1 = foldl (stream_item base now task_id) s items in
                case raised of
                  None \<Rightarrow> (s1, None)
                | Some e \<Rightarrow>
                    (enqueue_events_for_sse base s1 task_id (ErrorEvent (InternalError e)),
                     None))))"

text \<open>
  \<^verbatim>\<open>on_send_task_subscribe\<close>, the handler of \<^verbatim>\<open>tasks/sendSubscribe\<close>: the error it answers with,
  or \<open>None\<close> when it returns the stream of events; with the state after the background
  task has run, and the exception that ended the background task, if any.
\<close>

definition on_send_task_subscribe ::
  "('s, 'dt) base \<Rightarrow> element_agent \<Rightarrow> 'dt \<Rightarrow> 's \<Rightarrow> TaskSendParams JSONRPCRequest
     \<Rightarrow> 's \<times> JSONRPCError option \<times> py_error option" where
  "on_send_task_subscribe base self_agent now s request =
     (let params = JSONRPCRequest_params request in
      case validate_request base request of
        Some err \<Rightarrow> (s, Some err, None)
      | None \<Rightarrow>
          (let s1 = upsert_task base s params;
               (s2, push_ok) =
                 (case TaskSendParams_pushNotification params of
                    Some cfg \<Rightarrow> set_push_notification_info base s1 (TaskSendParams_id params) cfg
                  | None \<Rightarrow> (s1, True))
           in
           if \<not> push_ok then
             (s2, Some (InvalidParamsError ''Push notification URL is invalid''), None)
           else
             (let s3 = setup_sse_consumer base s2 (TaskSendParams_id params) False in
              case run_streaming_agent base self_agent now s3 request of
                (s4, background) \<Rightarrow> (s4, None, background))))"

text \<open>
  The decoder of the parameters of both methods. The default of \<^verbatim>\<open>sessionId\<close> is a fresh
  identifier, the input \<open>uuid\<close>.
\<close>

definition decode_AuthenticationInfo :: "json \<Rightarrow> AuthenticationInfo option" where
  "decode_AuthenticationInfo j =
     (case j of
        JObject d \<Rightarrow>
          do {
            schemes \<leftarrow> required (as_list as_str) d ''schemes'';
            credentials \<leftarrow> optional as_str d ''credentials'';
            Some \<lparr>AuthenticationInfo_schemes = schemes,
                  AuthenticationInfo_credentials = credentials,
                  AuthenticationInfo_extra =
                    filter (\<lambda>(k, v). k \<noteq> ''schemes'' \<and> k \<noteq> ''credentials'') d\<rparr>
          }
      | _ \<Rightarrow> None)"

definition decode_PushNotificationConfig :: "json \<Rightarrow> PushNotificationConfig option" where
  "decode_PushNotificationConfig j =
     (case j of
        JObject d \<Rightarrow>
          do {
            url \<leftarrow> required as_str d ''url'';
            token \<leftarrow> optional as_str d ''token'';
            authentication \<leftarrow> optional decode_AuthenticationInfo d ''authentication'';
            Some \<lparr>PushNotificationConfig_url = url, PushNotificationConfig_token = token,
                  PushNotificationConfig_authentication = authentication\<rparr>
          }
      | _ \<Rightarrow> None)"

definition decode_TaskSendParams :: "string \<Rightarrow> json \<Rightarrow> TaskSendParams option" where
  "decode_TaskSendParams uuid j =
     (case j of
        JObject d \<Rightarrow>
          do {
            id \<leftarrow> required as_str d ''id'';
            sessionId \<leftarrow> defaulted as_str uuid d ''sessionId'';
            message \<leftarrow> required decode_Message d ''message'';
            acceptedOutputModes \<leftarrow> optional (as_list as_str) d ''acceptedOutputModes'';
            pushNotification \<leftarrow> optional decode_PushNotificationConfig d ''pushNotification'';
            historyLength \<leftarrow> optional as_int d ''historyLength'';
            metadata \<leftarrow> optional as_dict d ''metadata'';
            Some \<lparr>TaskSendParams_id = id, TaskSendParams_sessionId = sessionId,
                  TaskSendParams_message = message,
                  TaskSendParams_acceptedOutputModes = acceptedOutputModes,
                  TaskSendParams_pushNotification = pushNotification,
                  TaskSendParams_historyLength = historyLength,
                  TaskSendParams_metadata = metadata\<rparr>
          }
      | _ \<Rightarrow> None)"

section \<open>Encoding and decoding the remaining wire types of version 0.1\<close>

text \<open>
  The encoders and decoders of the parameters, the requests, the responses and the agent
  card, written from the declarations of \<^verbatim>\<open>0.1/common/types.py\<close> as above.
\<close>

definition encode_strs :: "string list \<Rightarrow> json" where
  "encode_strs xs = JArray (map JString xs)"

subsection \<open>Parameters\<close>

text \<open>
  \<^verbatim>\<open>AuthenticationInfo\<close> allows extra fields: the keys of the object that the model does not
  declare are kept, in \<open>AuthenticationInfo_extra\<close>, and dumped after the declared fields.
\<close>

definition encode_AuthenticationInfo :: "bool \<Rightarrow> AuthenticationInfo \<Rightarrow> json" where
  "encode_AuthenticationInfo exclude_none a =
     JObject ([(''schemes'', encode_strs (AuthenticationInfo_schemes a))]
              @ field_opt exclude_none ''credentials'' JString (AuthenticationInfo_credentials a)
              @ (if exclude_none
                 then filter (\<lambda>(k, v). v \<noteq> JNull) (AuthenticationInfo_extra a)
                 else AuthenticationInfo_extra a))"

definition encode_PushNotificationConfig :: "bool \<Rightarrow> PushNotificationConfig \<Rightarrow> json" where
  "encode_PushNotificationConfig exclude_none c =
     JObject ([(''url'', JString (PushNotificationConfig_url c))]
              @ field_opt exclude_none ''token'' JString (PushNotificationConfig_token c)
              @ field_opt exclude_none ''authentication''
                  (encode_AuthenticationInfo exclude_none)
                  (PushNotificationConfig_authentication c))"

definition encode_TaskSendParams :: "bool \<Rightarrow> TaskSendParams \<Rightarrow> json" where
  "encode_TaskSendParams exclude_none p =
     JObject ([(''id'', JString (TaskSendParams_id p)),
               (''sessionId'', JString (TaskSendParams_sessionId p)),
               (''message'', encode_Message exclude_none (TaskSendParams_message p))]
              @ field_opt exclude_none ''acceptedOutputModes'' encode_strs
                  (TaskSendParams_acceptedOutputModes p)
              @ field_opt exclude_none ''pushNotification''
                  (encode_PushNotificationConfig exclude_none)
                  (TaskSendParams_pushNotification p)
              @ field_opt exclude_none ''historyLength'' JInt (TaskSendParams_historyLength p)
              @ field_opt exclude_none ''metadata'' JObject (TaskSendParams_metadata p))"

record TaskIdParams =
  TaskIdParams_id :: string
  TaskIdParams_metadata :: "dict option"

definition decode_TaskIdParams :: "json \<Rightarrow> TaskIdParams option" where
  "decode_TaskIdParams j =
     (case j of
        JObject d \<Rightarrow>
          do {
            id \<leftarrow> required as_str d ''id'';
            metadata \<leftarrow> optional as_dict d ''metadata'';
            Some \<lparr>TaskIdParams_id = id, TaskIdParams_metadata = metadata\<rparr>
          }
      | _ \<Rightarrow> None)"

definition encode_TaskIdParams :: "bool \<Rightarrow> TaskIdParams \<Rightarrow> json" where
  "encode_TaskIdParams exclude_none p =
     JObject ([(''id'', JString (TaskIdParams_id p))]
              @ field_opt exclude_none ''metadata'' JObject (TaskIdParams_metadata p))"

text \<open>\<^verbatim>\<open>TaskQueryParams\<close> extends \<^verbatim>\<open>TaskIdParams\<close> by \<^verbatim>\<open>historyLength\<close>.\<close>

record TaskQueryParams =
  TaskQueryParams_id :: string
  TaskQueryParams_metadata :: "dict option"
  TaskQueryParams_historyLength :: "int option"

definition decode_TaskQueryParams :: "json \<Rightarrow> TaskQueryParams option" where
  "decode_TaskQueryParams j =
     (case j of
        JObject d \<Rightarrow>
          do {
            id \<leftarrow> required as_str d ''id'';
            metadata \<leftarrow> optional as_dict d ''metadata'';
            historyLength \<leftarrow> optional as_int d ''historyLength'';
            Some \<lparr>TaskQueryParams_id = id, TaskQueryParams_metadata = metadata,
                  TaskQueryParams_historyLength = historyLength\<rparr>
          }
      | _ \<Rightarrow> None)"

definition encode_TaskQueryParams :: "bool \<Rightarrow> TaskQueryParams \<Rightarrow> json" where
  "encode_TaskQueryParams exclude_none p =
     JObject ([(''id'', JString (TaskQueryParams_id p))]
              @ field_opt exclude_none ''metadata'' JObject (TaskQueryParams_metadata p)
              @ field_opt exclude_none ''historyLength'' JInt (TaskQueryParams_historyLength p))"

record TaskPushNotificationConfig =
  TaskPushNotificationConfig_id :: string
  TaskPushNotificationConfig_pushNotificationConfig :: PushNotificationConfig

definition decode_TaskPushNotificationConfig :: "json \<Rightarrow> TaskPushNotificationConfig option" where
  "decode_TaskPushNotificationConfig j =
     (case j of
        JObject d \<Rightarrow>
          do {
            id \<leftarrow> required as_str d ''id'';
            pushNotificationConfig \<leftarrow>
              required decode_PushNotificationConfig d ''pushNotificationConfig'';
            Some \<lparr>TaskPushNotificationConfig_id = id,
                  TaskPushNotificationConfig_pushNotificationConfig = pushNotificationConfig\<rparr>
          }
      | _ \<Rightarrow> None)"

definition encode_TaskPushNotificationConfig ::
  "bool \<Rightarrow> TaskPushNotificationConfig \<Rightarrow> json" where
  "encode_TaskPushNotificationConfig exclude_none c =
     JObject [(''id'', JString (TaskPushNotificationConfig_id c)),
              (''pushNotificationConfig'',
               encode_PushNotificationConfig exclude_none
                 (TaskPushNotificationConfig_pushNotificationConfig c))]"

subsection \<open>Requests\<close>

definition decode_rpc_id :: "json \<Rightarrow> rpc_id option" where
  "decode_rpc_id j = (case j of JInt i \<Rightarrow> Some (IdInt i) | JString s \<Rightarrow> Some (IdStr s) | _ \<Rightarrow> None)"

fun encode_rpc_id :: "rpc_id \<Rightarrow> json" where
  "encode_rpc_id (IdInt i) = JInt i"
| "encode_rpc_id (IdStr s) = JString s"

text \<open>
  The fields of \<^verbatim>\<open>JSONRPCMessage\<close>: \<^verbatim>\<open>jsonrpc\<close> is the literal \<^verbatim>\<open>"2.0"\<close> with that default, so it
  may be missing but may not be anything else; \<^verbatim>\<open>id\<close> has a fresh identifier as its
  default, the input \<open>uuid\<close>, and takes \<^verbatim>\<open>null\<close>.
\<close>

definition decode_jsonrpc :: "dict \<Rightarrow> unit option" where
  "decode_jsonrpc d =
     (case map_of d ''jsonrpc'' of
        None \<Rightarrow> Some ()
      | Some j \<Rightarrow> if j = JString ''2.0'' then Some () else None)"

definition decode_message_id :: "string \<Rightarrow> dict \<Rightarrow> rpc_id option option" where
  "decode_message_id uuid d =
     (case map_of d ''id'' of
        None \<Rightarrow> Some (Some (IdStr uuid))
      | Some j \<Rightarrow> if j = JNull then Some None else map_option Some (decode_rpc_id j))"

text \<open>
  \<^verbatim>\<open>A2ARequest\<close> is the union of the seven request classes, told apart by \<^verbatim>\<open>method\<close>.
\<close>

datatype A2ARequest =
  SendTaskRequest "TaskSendParams JSONRPCRequest"
  | GetTaskRequest "TaskQueryParams JSONRPCRequest"
  | CancelTaskRequest "TaskIdParams JSONRPCRequest"
  | SetTaskPushNotificationRequest "TaskPushNotificationConfig JSONRPCRequest"
  | GetTaskPushNotificationRequest "TaskIdParams JSONRPCRequest"
  | TaskResubscriptionRequest "TaskIdParams JSONRPCRequest"
  | SendTaskStreamingRequest "TaskSendParams JSONRPCRequest"

definition decode_request ::
  "(json \<Rightarrow> 'p option) \<Rightarrow> string \<Rightarrow> dict \<Rightarrow> 'p JSONRPCRequest option" where
  "decode_request dec uuid d =
     do {
       _ \<leftarrow> decode_jsonrpc d;
       request_id \<leftarrow> decode_message_id uuid d;
       params \<leftarrow> required dec d ''params'';
       Some \<lparr>JSONRPCRequest_id = request_id, JSONRPCRequest_params = params\<rparr>
     }"

definition decode_A2ARequest :: "string \<Rightarrow> string \<Rightarrow> json \<Rightarrow> A2ARequest option" where
  "decode_A2ARequest uuid session_uuid j =
     (case j of
        JObject d \<Rightarrow>
          (case map_of d ''method'' of
             Some (JString m) \<Rightarrow>
               if m = ''tasks/send'' then
                 map_option SendTaskRequest
                   (decode_request (decode_TaskSendParams session_uuid) uuid d)
               else if m = ''tasks/get'' then
                 map_option GetTaskRequest (decode_request decode_TaskQueryParams uuid d)
               else if m = ''tasks/cancel'' then
                 map_option CancelTaskRequest (decode_request decode_TaskIdParams uuid d)
               else if m = ''tasks/pushNotification/set'' then
                 map_option SetTaskPushNotificationRequest
                   (decode_request decode_TaskPushNotificationConfig uuid d)
               else if m = ''tasks/pushNotification/get'' then
                 map_option GetTaskPushNotificationRequest
                   (decode_request decode_TaskIdParams uuid d)
               else if m = ''tasks/resubscribe'' then
                 map_option TaskResubscriptionRequest
                   (decode_request decode_TaskIdParams uuid d)
               else if m = ''tasks/sendSubscribe'' then
                 map_option SendTaskStreamingRequest
                   (decode_request (decode_TaskSendParams session_uuid) uuid d)
               else None
           | _ \<Rightarrow> None)
      | _ \<Rightarrow> None)"

definition encode_request ::
  "bool \<Rightarrow> string \<Rightarrow> ('p \<Rightarrow> json) \<Rightarrow> 'p JSONRPCRequest \<Rightarrow> json" where
  "encode_request exclude_none method enc r =
     JObject ([(''jsonrpc'', JString ''2.0'')]
              @ field_opt exclude_none ''id'' encode_rpc_id (JSONRPCRequest_id r)
              @ [(''method'', JString method), (''params'', enc (JSONRPCRequest_params r))])"

fun encode_A2ARequest :: "bool \<Rightarrow> A2ARequest \<Rightarrow> json" where
  "encode_A2ARequest en (SendTaskRequest r) =
     encode_request en ''tasks/send'' (encode_TaskSendParams en) r"
| "encode_A2ARequest en (GetTaskRequest r) =
     encode_request en ''tasks/get'' (encode_TaskQueryParams en) r"
| "encode_A2ARequest en (CancelTaskRequest r) =
     encode_request en ''tasks/cancel'' (encode_TaskIdParams en) r"
| "encode_A2ARequest en (SetTaskPushNotificationRequest r) =
     encode_request en ''tasks/pushNotification/set'' (encode_TaskPushNotificationConfig en) r"
| "encode_A2ARequest en (GetTaskPushNotificationRequest r) =
     encode_request en ''tasks/pushNotification/get'' (encode_TaskIdParams en) r"
| "encode_A2ARequest en (TaskResubscriptionRequest r) =
     encode_request en ''tasks/resubscribe'' (encode_TaskIdParams en) r"
| "encode_A2ARequest en (SendTaskStreamingRequest r) =
     encode_request en ''tasks/sendSubscribe'' (encode_TaskSendParams en) r"

subsection \<open>Responses\<close>

text \<open>
  The field \<^verbatim>\<open>data\<close> of an error has the type \<^verbatim>\<open>Any | None\<close>: \<^verbatim>\<open>null\<close> is \<^verbatim>\<open>None\<close>, so a valid
  error never holds \<open>Some JNull\<close>.
\<close>

definition decode_JSONRPCError :: "json \<Rightarrow> JSONRPCError option" where
  "decode_JSONRPCError j =
     (case j of
        JObject d \<Rightarrow>
          do {
            code \<leftarrow> required as_int d ''code'';
            message \<leftarrow> required as_str d ''message'';
            data \<leftarrow> optional Some d ''data'';
            Some \<lparr>JSONRPCError_code = code, JSONRPCError_message = message,
                  JSONRPCError_data = data\<rparr>
          }
      | _ \<Rightarrow> None)"

definition encode_JSONRPCError :: "bool \<Rightarrow> JSONRPCError \<Rightarrow> json" where
  "encode_JSONRPCError exclude_none e =
     JObject ([(''code'', JInt (JSONRPCError_code e)),
               (''message'', JString (JSONRPCError_message e))]
              @ field_opt exclude_none ''data'' (\<lambda>j. j) (JSONRPCError_data e))"

definition valid_JSONRPCError :: "JSONRPCError \<Rightarrow> bool" where
  "valid_JSONRPCError e \<longleftrightarrow> JSONRPCError_data e \<noteq> Some JNull"

text \<open>
  A response class with the result type \<open>'r\<close>: \<^verbatim>\<open>SendTaskResponse\<close>, \<^verbatim>\<open>GetTaskResponse\<close> and
  \<^verbatim>\<open>CancelTaskResponse\<close> have a task as result, the two push notification responses a
  \<^verbatim>\<open>TaskPushNotificationConfig\<close>, and \<^verbatim>\<open>SendTaskStreamingResponse\<close> an update event.
\<close>

definition decode_response ::
  "(json \<Rightarrow> 'r option) \<Rightarrow> string \<Rightarrow> json \<Rightarrow> 'r JSONRPCResponse option" where
  "decode_response dec uuid j =
     (case j of
        JObject d \<Rightarrow>
          do {
            _ \<leftarrow> decode_jsonrpc d;
            response_id \<leftarrow> decode_message_id uuid d;
            result \<leftarrow> optional dec d ''result'';
            error \<leftarrow> optional decode_JSONRPCError d ''error'';
            Some \<lparr>JSONRPCResponse_id = response_id, JSONRPCResponse_result = result,
                  JSONRPCResponse_error = error\<rparr>
          }
      | _ \<Rightarrow> None)"

definition encode_response :: "bool \<Rightarrow> ('r \<Rightarrow> json) \<Rightarrow> 'r JSONRPCResponse \<Rightarrow> json" where
  "encode_response exclude_none enc r =
     JObject ([(''jsonrpc'', JString ''2.0'')]
              @ field_opt exclude_none ''id'' encode_rpc_id (JSONRPCResponse_id r)
              @ field_opt exclude_none ''result'' enc (JSONRPCResponse_result r)
              @ field_opt exclude_none ''error'' (encode_JSONRPCError exclude_none)
                  (JSONRPCResponse_error r))"

definition decode_TaskStatusUpdateEvent ::
  "(string \<Rightarrow> 'dt option) \<Rightarrow> 'dt \<Rightarrow> json \<Rightarrow> 'dt TaskStatusUpdateEvent01 option" where
  "decode_TaskStatusUpdateEvent fromiso now j =
     (case j of
        JObject d \<Rightarrow>
          do {
            id \<leftarrow> required as_str d ''id'';
            status \<leftarrow> required (decode_TaskStatus fromiso now) d ''status'';
            final \<leftarrow> defaulted as_bool False d ''final'';
            metadata \<leftarrow> optional as_dict d ''metadata'';
            Some \<lparr>TaskStatusUpdateEvent01_id = id, TaskStatusUpdateEvent01_status = status,
                  TaskStatusUpdateEvent01_final = final,
                  TaskStatusUpdateEvent01_metadata = metadata\<rparr>
          }
      | _ \<Rightarrow> None)"

definition encode_TaskStatusUpdateEvent ::
  "('dt \<Rightarrow> string) \<Rightarrow> bool \<Rightarrow> 'dt TaskStatusUpdateEvent01 \<Rightarrow> json" where
  "encode_TaskStatusUpdateEvent isoformat exclude_none e =
     JObject ([(''id'', JString (TaskStatusUpdateEvent01_id e)),
               (''status'', encode_TaskStatus isoformat exclude_none
                              (TaskStatusUpdateEvent01_status e)),
               (''final'', JBool (TaskStatusUpdateEvent01_final e))]
              @ field_opt exclude_none ''metadata'' JObject (TaskStatusUpdateEvent01_metadata e))"

definition decode_TaskArtifactUpdateEvent :: "json \<Rightarrow> TaskArtifactUpdateEvent01 option" where
  "decode_TaskArtifactUpdateEvent j =
     (case j of
        JObject d \<Rightarrow>
          do {
            id \<leftarrow> required as_str d ''id'';
            artifact \<leftarrow> required decode_Artifact d ''artifact'';
            metadata \<leftarrow> optional as_dict d ''metadata'';
            Some \<lparr>TaskArtifactUpdateEvent01_id = id,
                  TaskArtifactUpdateEvent01_artifact = artifact,
                  TaskArtifactUpdateEvent01_metadata = metadata\<rparr>
          }
      | _ \<Rightarrow> None)"

definition encode_TaskArtifactUpdateEvent :: "bool \<Rightarrow> TaskArtifactUpdateEvent01 \<Rightarrow> json" where
  "encode_TaskArtifactUpdateEvent exclude_none e =
     JObject ([(''id'', JString (TaskArtifactUpdateEvent01_id e)),
               (''artifact'', encode_Artifact exclude_none (TaskArtifactUpdateEvent01_artifact e))]
              @ field_opt exclude_none ''metadata'' JObject
                  (TaskArtifactUpdateEvent01_metadata e))"

subsection \<open>The agent card\<close>

record AgentProvider =
  AgentProvider_organization :: string
  AgentProvider_url :: "string option"

definition decode_AgentProvider :: "json \<Rightarrow> AgentProvider option" where
  "decode_AgentProvider j =
     (case j of
        JObject d \<Rightarrow>
          do {
            organization \<leftarrow> required as_str d ''organization'';
            url \<leftarrow> optional as_str d ''url'';
            Some \<lparr>AgentProvider_organization = organization, AgentProvider_url = url\<rparr>
          }
      | _ \<Rightarrow> None)"

definition encode_AgentProvider :: "bool \<Rightarrow> AgentProvider \<Rightarrow> json" where
  "encode_AgentProvider exclude_none p =
     JObject ([(''organization'', JString (AgentProvider_organization p))]
              @ field_opt exclude_none ''url'' JString (AgentProvider_url p))"

record AgentCapabilities =
  AgentCapabilities_streaming :: bool
  AgentCapabilities_pushNotifications :: bool
  AgentCapabilities_stateTransitionHistory :: bool

definition decode_AgentCapabilities :: "json \<Rightarrow> AgentCapabilities option" where
  "decode_AgentCapabilities j =
     (case j of
        JObject d \<Rightarrow>
          do {
            streaming \<leftarrow> defaulted as_bool False d ''streaming'';
            pushNotifications \<leftarrow> defaulted as_bool False d ''pushNotifications'';
            stateTransitionHistory \<leftarrow> defaulted as_bool False d ''stateTransitionHistory'';
            Some \<lparr>AgentCapabilities_streaming = streaming,
                  AgentCapabilities_pushNotifications = pushNotifications,
                  AgentCapabilities_stateTransitionHistory = stateTransitionHistory\<rparr>
          }
      | _ \<Rightarrow> None)"

definition encode_AgentCapabilities :: "AgentCapabilities \<Rightarrow> json" where
  "encode_AgentCapabilities c =
     JObject [(''streaming'', JBool (AgentCapabilities_streaming c)),
              (''pushNotifications'', JBool (AgentCapabilities_pushNotifications c)),
              (''stateTransitionHistory'', JBool (AgentCapabilities_stateTransitionHistory c))]"

record AgentAuthentication =
  AgentAuthentication_schemes :: "string list"
  AgentAuthentication_credentials :: "string option"

definition decode_AgentAuthentication :: "json \<Rightarrow> AgentAuthentication option" where
  "decode_AgentAuthentication j =
     (case j of
        JObject d \<Rightarrow>
          do {
            schemes \<leftarrow> required (as_list as_str) d ''schemes'';
            credentials \<leftarrow> optional as_str d ''credentials'';
            Some \<lparr>AgentAuthentication_schemes = schemes,
                  AgentAuthentication_credentials = credentials\<rparr>
          }
      | _ \<Rightarrow> None)"

definition encode_AgentAuthentication :: "bool \<Rightarrow> AgentAuthentication \<Rightarrow> json" where
  "encode_AgentAuthentication exclude_none a =
     JObject ([(''schemes'', encode_strs (AgentAuthentication_schemes a))]
              @ field_opt exclude_none ''credentials'' JString
                  (AgentAuthentication_credentials a))"

record AgentSkill =
  AgentSkill_id :: string
  AgentSkill_name :: string
  AgentSkill_description :: "string option"
  AgentSkill_tags :: "string list option"
  AgentSkill_examples :: "string list option"
  AgentSkill_inputModes :: "string list option"
  AgentSkill_outputModes :: "string list option"

definition decode_AgentSkill :: "json \<Rightarrow> AgentSkill option" where
  "decode_AgentSkill j =
     (case j of
        JObject d \<Rightarrow>
          do {
            id \<leftarrow> required as_str d ''id'';
            name \<leftarrow> required as_str d ''name'';
            description \<leftarrow> optional as_str d ''description'';
            tags \<leftarrow> optional (as_list as_str) d ''tags'';
            examples \<leftarrow> optional (as_list as_str) d ''examples'';
            inputModes \<leftarrow> optional (as_list as_str) d ''inputModes'';
            outputModes \<leftarrow> optional (as_list as_str) d ''outputModes'';
            Some \<lparr>AgentSkill_id = id, AgentSkill_name = name,
                  AgentSkill_description = description, AgentSkill_tags = tags,
                  AgentSkill_examples = examples, AgentSkill_inputModes = inputModes,
                  AgentSkill_outputModes = outputModes\<rparr>
          }
      | _ \<Rightarrow> None)"

definition encode_AgentSkill :: "bool \<Rightarrow> AgentSkill \<Rightarrow> json" where
  "encode_AgentSkill exclude_none s =
     JObject ([(''id'', JString (AgentSkill_id s)), (''name'', JString (AgentSkill_name s))]
              @ field_opt exclude_none ''description'' JString (AgentSkill_description s)
              @ field_opt exclude_none ''tags'' encode_strs (AgentSkill_tags s)
              @ field_opt exclude_none ''examples'' encode_strs (AgentSkill_examples s)
              @ field_opt exclude_none ''inputModes'' encode_strs (AgentSkill_inputModes s)
              @ field_opt exclude_none ''outputModes'' encode_strs (AgentSkill_outputModes s))"

record AgentCard01 =
  AgentCard01_name :: string
  AgentCard01_description :: "string option"
  AgentCard01_url :: string
  AgentCard01_provider :: "AgentProvider option"
  AgentCard01_version :: string
  AgentCard01_documentationUrl :: "string option"
  AgentCard01_capabilities :: AgentCapabilities
  AgentCard01_authentication :: "AgentAuthentication option"
  AgentCard01_defaultInputModes :: "string list"
  AgentCard01_defaultOutputModes :: "string list"
  AgentCard01_skills :: "AgentSkill list"

definition decode_AgentCard :: "json \<Rightarrow> AgentCard01 option" where
  "decode_AgentCard j =
     (case j of
        JObject d \<Rightarrow>
          do {
            name \<leftarrow> required as_str d ''name'';
            description \<leftarrow> optional as_str d ''description'';
            url \<leftarrow> required as_str d ''url'';
            provider \<leftarrow> optional decode_AgentProvider d ''provider'';
            version \<leftarrow> required as_str d ''version'';
            documentationUrl \<leftarrow> optional as_str d ''documentationUrl'';
            capabilities \<leftarrow> required decode_AgentCapabilities d ''capabilities'';
            authentication \<leftarrow> optional decode_AgentAuthentication d ''authentication'';
            defaultInputModes \<leftarrow> defaulted (as_list as_str) [''text''] d ''defaultInputModes'';
            defaultOutputModes \<leftarrow> defaulted (as_list as_str) [''text''] d ''defaultOutputModes'';
            skills \<leftarrow> required (as_list decode_AgentSkill) d ''skills'';
            Some \<lparr>AgentCard01_name = name, AgentCard01_description = description,
                  AgentCard01_url = url, AgentCard01_provider = provider,
                  AgentCard01_version = version,
                  AgentCard01_documentationUrl = documentationUrl,
                  AgentCard01_capabilities = capabilities,
                  AgentCard01_authentication = authentication,
                  AgentCard01_defaultInputModes = defaultInputModes,
                  AgentCard01_defaultOutputModes = defaultOutputModes,
                  AgentCard01_skills = skills\<rparr>
          }
      | _ \<Rightarrow> None)"

definition encode_AgentCard :: "bool \<Rightarrow> AgentCard01 \<Rightarrow> json" where
  "encode_AgentCard exclude_none c =
     JObject ([(''name'', JString (AgentCard01_name c))]
              @ field_opt exclude_none ''description'' JString (AgentCard01_description c)
              @ [(''url'', JString (AgentCard01_url c))]
              @ field_opt exclude_none ''provider'' (encode_AgentProvider exclude_none)
                  (AgentCard01_provider c)
              @ [(''version'', JString (AgentCard01_version c))]
              @ field_opt exclude_none ''documentationUrl'' JString
                  (AgentCard01_documentationUrl c)
              @ [(''capabilities'', encode_AgentCapabilities (AgentCard01_capabilities c))]
              @ field_opt exclude_none ''authentication''
                  (encode_AgentAuthentication exclude_none) (AgentCard01_authentication c)
              @ [(''defaultInputModes'', encode_strs (AgentCard01_defaultInputModes c)),
                 (''defaultOutputModes'', encode_strs (AgentCard01_defaultOutputModes c)),
                 (''skills'', JArray (map (encode_AgentSkill exclude_none) (AgentCard01_skills c)))])"

subsection \<open>Valid values of the parameter and request types\<close>

definition valid_AuthenticationInfo :: "AuthenticationInfo \<Rightarrow> bool" where
  "valid_AuthenticationInfo a \<longleftrightarrow>
     list_all (\<lambda>(k, v). k \<noteq> ''schemes'' \<and> k \<noteq> ''credentials'') (AuthenticationInfo_extra a)"

definition valid_PushNotificationConfig :: "PushNotificationConfig \<Rightarrow> bool" where
  "valid_PushNotificationConfig c \<longleftrightarrow>
     (case PushNotificationConfig_authentication c of
        None \<Rightarrow> True | Some a \<Rightarrow> valid_AuthenticationInfo a)"

definition valid_TaskSendParams :: "TaskSendParams \<Rightarrow> bool" where
  "valid_TaskSendParams p \<longleftrightarrow>
     valid_Message (TaskSendParams_message p)
     \<and> (case TaskSendParams_pushNotification p of
           None \<Rightarrow> True | Some c \<Rightarrow> valid_PushNotificationConfig c)"

fun valid_A2ARequest :: "A2ARequest \<Rightarrow> bool" where
  "valid_A2ARequest (SendTaskRequest r) = valid_TaskSendParams (JSONRPCRequest_params r)"
| "valid_A2ARequest (SendTaskStreamingRequest r) = valid_TaskSendParams (JSONRPCRequest_params r)"
| "valid_A2ARequest (SetTaskPushNotificationRequest r) =
     valid_PushNotificationConfig
       (TaskPushNotificationConfig_pushNotificationConfig (JSONRPCRequest_params r))"
| "valid_A2ARequest (GetTaskRequest r) = True"
| "valid_A2ARequest (CancelTaskRequest r) = True"
| "valid_A2ARequest (GetTaskPushNotificationRequest r) = True"
| "valid_A2ARequest (TaskResubscriptionRequest r) = True"

subsection \<open>Example data\<close>

text \<open>A task \<^verbatim>\<open>t1\<close> in a given state, and a chunk of the artifact \<^verbatim>\<open>A1\<close> with one text part.\<close>

definition ex_status :: "TaskState \<Rightarrow> TaskStatus" where
  "ex_status st =
     \<lparr>TaskStatus_state = st, TaskStatus_message = None, TaskStatus_timestamp = None\<rparr>"

definition ex_task :: "TaskState \<Rightarrow> Task" where
  "ex_task st =
     \<lparr>Task_id = ''t1'', Task_contextId = Some ''c1'', Task_status = ex_status st,
      Task_artifacts = Some [], Task_history = None\<rparr>"

definition ex_artifact :: "string list \<Rightarrow> Artifact" where
  "ex_artifact texts =
     \<lparr>Artifact_artifactId = ''A1'', Artifact_name = None, Artifact_description = None,
      Artifact_parts = map TextPart texts\<rparr>"

definition ex_chunk :: "string \<Rightarrow> bool option \<Rightarrow> bool option \<Rightarrow> TaskArtifactUpdateEvent" where
  "ex_chunk text app lst =
     \<lparr>TaskArtifactUpdateEvent_taskId = ''t1'', TaskArtifactUpdateEvent_contextId = Some ''c1'',
      TaskArtifactUpdateEvent_artifact = ex_artifact [text],
      TaskArtifactUpdateEvent_append = app, TaskArtifactUpdateEvent_lastChunk = lst\<rparr>"

definition ex_manager :: "Task list \<Rightarrow> ADKHostManager" where
  "ex_manager ts =
     \<lparr>self_tasks = ts, self_events = Map.empty, self_artifact_chunks = Map.empty,
      self_task_map = Map.empty, self_processing_tasks = {}, self_callback_depth = Map.empty\<rparr>"

definition ex_status_event :: "TaskState \<Rightarrow> TaskStatusUpdateEvent" where
  "ex_status_event st =
     \<lparr>TaskStatusUpdateEvent_taskId = ''t1'', TaskStatusUpdateEvent_contextId = Some ''c1'',
      TaskStatusUpdateEvent_status = ex_status st, TaskStatusUpdateEvent_final = False\<rparr>"

definition ex_outside :: Outside where
  "ex_outside = \<lparr>uuid_task = ''u-task'', uuid_message = ''u-message'',
                  uuid_event = ''u-event'', utcnow = 0\<rparr>"


text \<open>
  A stand-in for the operations of \<^verbatim>\<open>InMemoryTaskManager\<close>: its state is the log of the calls
  made, \<^verbatim>\<open>update_store\<close> returns a task with the status and the artifacts it was given, every
  pair of output modes is compatible and every push URL verifies. An agent that answers
  every query with \<^verbatim>\<open>pong\<close>, and a \<^verbatim>\<open>tasks/send\<close> request for the task \<^verbatim>\<open>t1\<close> with the given
  parts.
\<close>

definition ex_base :: "(string list, string) base" where
  "ex_base =
     \<lparr>upsert_task = (\<lambda>s p. s @ [''upsert_task '' @ TaskSendParams_id p]),
      update_store = (\<lambda>s task_id status artifacts.
        (s @ [''update_store '' @ task_id @ '' ''
                @ TaskState01_value (TaskStatus01_state status)],
         \<lparr>Task01_id = task_id, Task01_sessionId = None, Task01_status = status,
          Task01_artifacts = Some artifacts, Task01_history = None,
          Task01_metadata = None\<rparr>)),
      append_task_history = (\<lambda>task history_length. task),
      base_set_push_notification_info = (\<lambda>s task_id cfg. s @ [''set_push '' @ task_id]),
      has_push_notification_info = (\<lambda>s task_id. False),
      get_push_notification_info = (\<lambda>s task_id.
        \<lparr>PushNotificationConfig_url = [], PushNotificationConfig_token = None,
         PushNotificationConfig_authentication = None\<rparr>),
      send_push_notification = (\<lambda>s url task. s @ [''push '' @ url]),
      verify_push_notification_url = (\<lambda>url. True),
      setup_sse_consumer = (\<lambda>s task_id resume. s @ [''setup_sse_consumer '' @ task_id]),
      enqueue_events_for_sse = (\<lambda>s task_id event. s @ [''enqueue '' @ task_id]),
      are_modalities_compatible = (\<lambda>server_modes client_modes. True),
      new_incompatible_types_error = (\<lambda>request_id.
        \<lparr>JSONRPCError_code = - 32005, JSONRPCError_message = ''Incompatible content types'',
         JSONRPCError_data = None\<rparr>)\<rparr>"

definition ex_agent :: element_agent where
  "ex_agent =
     \<lparr>invoke = (\<lambda>query sessionId.
        Inr \<lparr>ElementAPIResponse_content = ''pong'',
             ElementAPIResponse_require_user_input = None,
             ElementAPIResponse_is_task_complete = None\<rparr>),
      stream = (\<lambda>query sessionId. ([(''pong'', True)], None))\<rparr>"

definition ex_request :: "Part01 list \<Rightarrow> TaskSendParams JSONRPCRequest" where
  "ex_request parts =
     \<lparr>JSONRPCRequest_id = Some (IdStr ''1''),
      JSONRPCRequest_params =
        \<lparr>TaskSendParams_id = ''t1'', TaskSendParams_sessionId = ''s1'',
         TaskSendParams_message =
           \<lparr>Message01_role = role_user, Message01_parts = parts,
            Message01_metadata = None\<rparr>,
         TaskSendParams_acceptedOutputModes = Some [''text''],
         TaskSendParams_pushNotification = None,
         TaskSendParams_historyLength = None,
         TaskSendParams_metadata = None\<rparr>\<rparr>"

text \<open>
  A task of version 0.1 with one artifact and a status message, encoded with strings as
  time stamps, and an agent card.
\<close>

definition ex_message01 :: Message01 where
  "ex_message01 =
     \<lparr>Message01_role = role_user,
      Message01_parts =
        [TextPart01 ''ping'' None,
         FilePart01 \<lparr>FileContent_name = Some ''a.txt'', FileContent_mimeType = None,
                     FileContent_bytes = None, FileContent_uri = Some ''file:///a.txt''\<rparr>
           None],
      Message01_metadata = Some [(''k'', JInt 1)]\<rparr>"

definition ex_status01 :: "string TaskStatus01" where
  "ex_status01 =
     \<lparr>TaskStatus01_state = COMPLETED, TaskStatus01_message = Some ex_message01,
      TaskStatus01_timestamp = ''2026-01-01T00:00:00''\<rparr>"

definition ex_task01 :: "string Task01" where
  "ex_task01 =
     \<lparr>Task01_id = ''t1'', Task01_sessionId = Some ''s1'', Task01_status = ex_status01,
      Task01_artifacts = Some [new_artifact [TextPart01 ''pong'' None] None],
      Task01_history = Some [ex_message01], Task01_metadata = None\<rparr>"

definition ex_card01 :: AgentCard01 where
  "ex_card01 =
     \<lparr>AgentCard01_name = ''Element Agent'', AgentCard01_description = None,
      AgentCard01_url = ''http://localhost:10000/'', AgentCard01_provider = None,
      AgentCard01_version = ''1.0.0'', AgentCard01_documentationUrl = None,
      AgentCard01_capabilities =
        \<lparr>AgentCapabilities_streaming = True, AgentCapabilities_pushNotifications = True,
         AgentCapabilities_stateTransitionHistory = False\<rparr>,
      AgentCard01_authentication = None,
      AgentCard01_defaultInputModes = [''text''], AgentCard01_defaultOutputModes = [''text''],
      AgentCard01_skills =
        [\<lparr>AgentSkill_id = ''element'', AgentSkill_name = ''Elements'',
          AgentSkill_description = None, AgentSkill_tags = Some [''chemistry''],
          AgentSkill_examples = None, AgentSkill_inputModes = None,
          AgentSkill_outputModes = None\<rparr>]\<rparr>"


section \<open>Properties of chunked artifact assembly\<close>

lemma pae_append_step:
  assumes "truthy (TaskArtifactUpdateEvent_append e)"
    and "\<not> truthy (TaskArtifactUpdateEvent_lastChunk e)"
    and "Artifact_artifactId (TaskArtifactUpdateEvent_artifact e) = aid"
    and "ch aid = Some (cs @ [acc])"
  shows "process_artifact_event ch t e =
           (ch(aid \<mapsto> cs @ [acc\<lparr>Artifact_parts := Artifact_parts acc
                 @ Artifact_parts (TaskArtifactUpdateEvent_artifact e)\<rparr>]), t)"
  using assms by (simp add: process_artifact_event_def Let_def)

lemma pae_append_steps:
  assumes "\<forall>e \<in> set mids. truthy (TaskArtifactUpdateEvent_append e)
              \<and> \<not> truthy (TaskArtifactUpdateEvent_lastChunk e)
              \<and> Artifact_artifactId (TaskArtifactUpdateEvent_artifact e) = aid"
    and "ch aid = Some (cs @ [acc])"
  shows "process_artifact_events ch t (mids @ rest) =
           process_artifact_events
             (ch(aid \<mapsto> cs @ [acc\<lparr>Artifact_parts := Artifact_parts acc
                 @ concat (map (\<lambda>e. Artifact_parts (TaskArtifactUpdateEvent_artifact e)) mids)\<rparr>]))
             t rest"
  using assms
proof (induction mids arbitrary: ch acc)
  case Nil
  have "ch(aid \<mapsto> cs @ [acc]) = ch" using Nil.prems(2) by (rule map_upd_triv)
  then show ?case by simp
next
  case (Cons e mids)
  let ?P = "\<lambda>e. Artifact_parts (TaskArtifactUpdateEvent_artifact e)"
  let ?acc' = "acc\<lparr>Artifact_parts := Artifact_parts acc @ ?P e\<rparr>"
  let ?ch' = "ch(aid \<mapsto> cs @ [?acc'])"
  have step: "process_artifact_event ch t e = (?ch', t)"
    using Cons.prems by (intro pae_append_step) auto
  have ch': "?ch' aid = Some (cs @ [?acc'])" by simp
  have mids: "\<forall>e \<in> set mids. truthy (TaskArtifactUpdateEvent_append e)
              \<and> \<not> truthy (TaskArtifactUpdateEvent_lastChunk e)
              \<and> Artifact_artifactId (TaskArtifactUpdateEvent_artifact e) = aid"
    using Cons.prems(1) by simp
  have upd: "?ch'(aid \<mapsto> cs @ [?acc'\<lparr>Artifact_parts := Artifact_parts ?acc'
                 @ concat (map ?P mids)\<rparr>])
             = ch(aid \<mapsto> cs @ [acc\<lparr>Artifact_parts := Artifact_parts acc
                 @ concat (map ?P (e # mids))\<rparr>])"
    by simp
  have "process_artifact_events ch t ((e # mids) @ rest) =
      process_artifact_events ?ch' t (mids @ rest)"
    by (simp add: step)
  also have "\<dots> = process_artifact_events
             (?ch'(aid \<mapsto> cs @ [?acc'\<lparr>Artifact_parts := Artifact_parts ?acc'
                 @ concat (map ?P mids)\<rparr>]))
             t rest"
    by (rule Cons.IH [of ?ch' ?acc', OF mids ch'])
  finally show ?case unfolding upd .
qed

lemma pae_first_chunk:
  assumes "\<not> truthy (TaskArtifactUpdateEvent_append e)"
    and "TaskArtifactUpdateEvent_lastChunk e = Some False"
  shows "process_artifact_event ch t e =
           (ch(Artifact_artifactId (TaskArtifactUpdateEvent_artifact e) \<mapsto>
                 list_or_empty (ch (Artifact_artifactId (TaskArtifactUpdateEvent_artifact e)))
                   @ [TaskArtifactUpdateEvent_artifact e]), t)"
  using assms by (simp add: process_artifact_event_def Let_def)

lemma pae_last_chunk:
  assumes "truthy (TaskArtifactUpdateEvent_append e)"
    and "truthy (TaskArtifactUpdateEvent_lastChunk e)"
    and "Artifact_artifactId (TaskArtifactUpdateEvent_artifact e) = aid"
    and "ch aid = Some (cs @ [acc])"
  shows "process_artifact_event ch t e =
           ((if cs = [] then ch(aid := None) else ch(aid \<mapsto> cs)),
            t\<lparr>Task_artifacts := Some (list_or_empty (Task_artifacts t)
               @ [acc\<lparr>Artifact_parts := Artifact_parts acc
                    @ Artifact_parts (TaskArtifactUpdateEvent_artifact e)\<rparr>])\<rparr>)"
  using assms by (simp add: process_artifact_event_def Let_def)

lemma pae_complete:
  assumes "\<not> truthy (TaskArtifactUpdateEvent_append e)"
    and "TaskArtifactUpdateEvent_lastChunk e = None \<or> TaskArtifactUpdateEvent_lastChunk e = Some True"
  shows "process_artifact_event ch t e =
           (ch, t\<lparr>Task_artifacts := Some (list_or_empty (Task_artifacts t)
                    @ [TaskArtifactUpdateEvent_artifact e])\<rparr>)"
  using assms by (auto simp add: process_artifact_event_def Let_def)

text \<open>
  Claim C2. A run of artifact events with one artifact id, made of a first chunk that is not an
  append and has \<^verbatim>\<open>lastChunk = False\<close>, any number of append chunks that are not the last,
  and a final append chunk with \<^verbatim>\<open>lastChunk = True\<close>, adds exactly one artifact to the task:
  the first chunk's artifact, with the parts of all chunks concatenated in arrival order. The
  accumulator that the run created is gone afterwards: the dictionary of pending chunks is
  the one before the run (an entry holding the empty list, if there was one, is dropped), so
  an id that had no pending chunks has none. And a single event that is not an append and
  whose \<^verbatim>\<open>lastChunk\<close> is unset or true is stored at once as a complete artifact, the
  dictionary untouched.
\<close>
theorem chunked_artifact_assembled:
  fixes ef el :: TaskArtifactUpdateEvent and mids :: "TaskArtifactUpdateEvent list"
  defines "aid \<equiv> Artifact_artifactId (TaskArtifactUpdateEvent_artifact ef)"
  defines "chunk_parts \<equiv> \<lambda>e. Artifact_parts (TaskArtifactUpdateEvent_artifact e)"
  shows
   "(\<not> truthy (TaskArtifactUpdateEvent_append ef)
       \<and> TaskArtifactUpdateEvent_lastChunk ef = Some False
       \<and> (\<forall>e \<in> set mids. truthy (TaskArtifactUpdateEvent_append e)
              \<and> \<not> truthy (TaskArtifactUpdateEvent_lastChunk e)
              \<and> Artifact_artifactId (TaskArtifactUpdateEvent_artifact e) = aid)
       \<and> truthy (TaskArtifactUpdateEvent_append el)
       \<and> truthy (TaskArtifactUpdateEvent_lastChunk el)
       \<and> Artifact_artifactId (TaskArtifactUpdateEvent_artifact el) = aid
     \<longrightarrow> process_artifact_events ch t (ef # mids @ [el]) =
           ((if ch aid = Some [] then ch(aid := None) else ch),
            t\<lparr>Task_artifacts := Some (list_or_empty (Task_artifacts t)
               @ [(TaskArtifactUpdateEvent_artifact ef)
                    \<lparr>Artifact_parts := concat (map chunk_parts (ef # mids @ [el]))\<rparr>])\<rparr>))
    \<and> (\<not> truthy (TaskArtifactUpdateEvent_append ef)
         \<and> (TaskArtifactUpdateEvent_lastChunk ef = None
              \<or> TaskArtifactUpdateEvent_lastChunk ef = Some True)
       \<longrightarrow> process_artifact_event ch t ef =
             (ch, t\<lparr>Task_artifacts := Some (list_or_empty (Task_artifacts t)
                      @ [TaskArtifactUpdateEvent_artifact ef])\<rparr>))"
proof (intro conjI impI)
  assume single: "\<not> truthy (TaskArtifactUpdateEvent_append ef)
         \<and> (TaskArtifactUpdateEvent_lastChunk ef = None
              \<or> TaskArtifactUpdateEvent_lastChunk ef = Some True)"
  then show "process_artifact_event ch t ef =
             (ch, t\<lparr>Task_artifacts := Some (list_or_empty (Task_artifacts t)
                      @ [TaskArtifactUpdateEvent_artifact ef])\<rparr>)"
    by (intro pae_complete) auto
next
  assume h: "\<not> truthy (TaskArtifactUpdateEvent_append ef)
       \<and> TaskArtifactUpdateEvent_lastChunk ef = Some False
       \<and> (\<forall>e \<in> set mids. truthy (TaskArtifactUpdateEvent_append e)
              \<and> \<not> truthy (TaskArtifactUpdateEvent_lastChunk e)
              \<and> Artifact_artifactId (TaskArtifactUpdateEvent_artifact e) = aid)
       \<and> truthy (TaskArtifactUpdateEvent_append el)
       \<and> truthy (TaskArtifactUpdateEvent_lastChunk el)
       \<and> Artifact_artifactId (TaskArtifactUpdateEvent_artifact el) = aid"
  let ?a0 = "TaskArtifactUpdateEvent_artifact ef"
  let ?cs = "list_or_empty (ch aid)"
  let ?ch1 = "ch(aid \<mapsto> ?cs @ [?a0])"
  let ?acc = "?a0\<lparr>Artifact_parts := Artifact_parts ?a0 @ concat (map chunk_parts mids)\<rparr>"
  let ?ch2 = "?ch1(aid \<mapsto> ?cs @ [?acc])"
  have s1: "process_artifact_event ch t ef = (?ch1, t)"
    using h unfolding aid_def by (intro pae_first_chunk) auto
  have c1: "?ch1 aid = Some (?cs @ [?a0])" by simp
  have mids: "\<forall>e \<in> set mids. truthy (TaskArtifactUpdateEvent_append e)
              \<and> \<not> truthy (TaskArtifactUpdateEvent_lastChunk e)
              \<and> Artifact_artifactId (TaskArtifactUpdateEvent_artifact e) = aid"
    using h by blast
  have s2: "process_artifact_events ?ch1 t (mids @ [el]) = process_artifact_events ?ch2 t [el]"
    unfolding chunk_parts_def by (rule pae_append_steps [of mids aid ?ch1 ?cs ?a0, OF mids c1])
  have c2: "?ch2 aid = Some (?cs @ [?acc])" by simp
  have s3: "process_artifact_event ?ch2 t el =
      ((if ?cs = [] then ?ch2(aid := None) else ?ch2(aid \<mapsto> ?cs)),
       t\<lparr>Task_artifacts := Some (list_or_empty (Task_artifacts t)
          @ [?acc\<lparr>Artifact_parts := Artifact_parts ?acc
               @ Artifact_parts (TaskArtifactUpdateEvent_artifact el)\<rparr>])\<rparr>)"
  proof (rule pae_last_chunk [of el aid ?ch2 ?cs ?acc t])
    show "truthy (TaskArtifactUpdateEvent_append el)" using h by blast
    show "truthy (TaskArtifactUpdateEvent_lastChunk el)" using h by blast
    show "Artifact_artifactId (TaskArtifactUpdateEvent_artifact el) = aid" using h by blast
    show "?ch2 aid = Some (?cs @ [?acc])" by (rule c2)
  qed
  have maps: "(if ?cs = [] then ?ch2(aid := None) else ?ch2(aid \<mapsto> ?cs))
      = (if ch aid = Some [] then ch(aid := None) else ch)"
    by (cases "ch aid") (auto simp: map_upd_triv)
  have parts: "?acc\<lparr>Artifact_parts := Artifact_parts ?acc
               @ Artifact_parts (TaskArtifactUpdateEvent_artifact el)\<rparr>
      = ?a0\<lparr>Artifact_parts := concat (map chunk_parts (ef # mids @ [el]))\<rparr>"
    by (simp add: chunk_parts_def)
  have "process_artifact_events ch t (ef # mids @ [el]) = process_artifact_events ?ch1 t (mids @ [el])"
    by (simp add: s1)
  also have "\<dots> = process_artifact_events ?ch2 t [el]" by (rule s2)
  also have "\<dots> = process_artifact_event ?ch2 t el"
    by (cases "process_artifact_event ?ch2 t el") simp
  also have "\<dots> = ((if ?cs = [] then ?ch2(aid := None) else ?ch2(aid \<mapsto> ?cs)),
       t\<lparr>Task_artifacts := Some (list_or_empty (Task_artifacts t)
          @ [?acc\<lparr>Artifact_parts := Artifact_parts ?acc
               @ Artifact_parts (TaskArtifactUpdateEvent_artifact el)\<rparr>])\<rparr>)"
    by (rule s3)
  finally show "process_artifact_events ch t (ef # mids @ [el]) =
           ((if ch aid = Some [] then ch(aid := None) else ch),
            t\<lparr>Task_artifacts := Some (list_or_empty (Task_artifacts t)
               @ [(TaskArtifactUpdateEvent_artifact ef)
                    \<lparr>Artifact_parts := concat (map chunk_parts (ef # mids @ [el]))\<rparr>])\<rparr>)"
    unfolding maps parts .
qed

text \<open>
  Claim C10. An append event for an artifact id that has no pending chunks (no entry in
  the dictionary, or an entry with the empty list) is dropped: \<^verbatim>\<open>process_artifact_event\<close>
  returns with the task and the dictionary as they were. The model has no error result
  because the source function has no \<^verbatim>\<open>raise\<close> and guards its indexings.
\<close>
theorem append_without_accumulator_is_discarded:
  assumes "truthy (TaskArtifactUpdateEvent_append e)"
    and "ch (Artifact_artifactId (TaskArtifactUpdateEvent_artifact e)) = None
         \<or> ch (Artifact_artifactId (TaskArtifactUpdateEvent_artifact e)) = Some []"
  shows "process_artifact_event ch t e = (ch, t)"
  using assms by (auto simp add: process_artifact_event_def Let_def)

text \<open>
  Witness for C2: the chunks \<^verbatim>\<open>a\<close>, \<^verbatim>\<open>b\<close>, \<^verbatim>\<open>c\<close> of the artifact \<^verbatim>\<open>A1\<close> arrive with no pending
  chunks; the task ends with the one artifact \<^verbatim>\<open>[a, b, c]\<close>. A single event with \<^verbatim>\<open>lastChunk\<close>
  unset is stored directly.
\<close>
theorem chunked_artifact_assembled_witness:
  "process_artifact_events Map.empty (ex_task working)
     [ex_chunk ''a'' (Some False) (Some False), ex_chunk ''b'' (Some True) (Some False),
      ex_chunk ''c'' (Some True) (Some True)]
   = (Map.empty, (ex_task working)\<lparr>Task_artifacts := Some [ex_artifact [''a'', ''b'', ''c'']]\<rparr>)
   \<and> process_artifact_event Map.empty (ex_task working) (ex_chunk ''a'' (Some False) None)
   = (Map.empty, (ex_task working)\<lparr>Task_artifacts := Some [ex_artifact [''a'']]\<rparr>)"
  using chunked_artifact_assembled
          [of "ex_chunk ''a'' (Some False) (Some False)"
              "[ex_chunk ''b'' (Some True) (Some False)]"
              "ex_chunk ''c'' (Some True) (Some True)" Map.empty "ex_task working"]
        chunked_artifact_assembled
          [of "ex_chunk ''a'' (Some False) None" "[]" "ex_chunk ''a'' (Some False) None"
              Map.empty "ex_task working"]
  by (simp add: ex_chunk_def ex_artifact_def ex_task_def)

text \<open>
  Witness for C10: an append chunk for \<^verbatim>\<open>A1\<close> arrives when nothing is pending.
\<close>
theorem append_without_accumulator_is_discarded_witness:
  "process_artifact_event Map.empty (ex_task working) (ex_chunk ''b'' (Some True) (Some False))
     = (Map.empty, ex_task working)"
  using append_without_accumulator_is_discarded
          [of "ex_chunk ''b'' (Some True) (Some False)" Map.empty "ex_task working"]
  by (simp add: ex_chunk_def ex_artifact_def)

section \<open>Properties of the status handling of \<^verbatim>\<open>task_callback\<close>\<close>

lemma find_replace_first:
  "Task_id task = tid \<Longrightarrow> \<exists>x \<in> set ts. Task_id x = tid
     \<Longrightarrow> find (\<lambda>x. Task_id x = tid) (replace_first task ts) = Some task"
  by (induction ts) auto

lemma self_tasks_emit_event [simp]:
  "self_tasks (emit_event out self task agent_card) = self_tasks self"
  by (simp add: emit_event_def add_event_def Let_def)

lemma self_tasks_attach [simp]:
  "self_tasks (attach_message_to_task self m tid) = self_tasks self"
  by (simp add: attach_message_to_task_def split: option.splits)

lemma self_tasks_finally [simp]:
  "self_tasks (callback_finally self tid) = self_tasks self"
  by (simp add: callback_finally_def Let_def split: option.splits)

lemma insert_message_history_id [simp]:
  "Task_id (insert_message_history task m) = Task_id task"
  by (simp add: insert_message_history_def Let_def split: option.splits)

lemma insert_message_history_status [simp]:
  "Task_status (insert_message_history task m) = Task_status task"
  by (simp add: insert_message_history_def Let_def split: option.splits)

lemma find_Some_id: "find (\<lambda>x. Task_id x = tid) ts = Some t \<Longrightarrow> Task_id t = tid \<and> t \<in> set ts"
  by (induction ts) (auto split: if_splits)

text \<open>
  Claim C1, as amended. The manager has no check of the stored state. For a task that is
  stored, is not being processed and has a callback depth of at most 5, \<^verbatim>\<open>task_callback\<close> on
  a status update event returns the stored task, now with the event's status, whatever the
  state of the task was before (terminal states included); and \<^verbatim>\<open>update_task\<close> overwrites
  the stored task of the same id with the task it is given.
\<close>
theorem status_update_applied_in_any_state:
  assumes tid: "TaskStatusUpdateEvent_taskId e = tid" "tid \<noteq> []"
    and idle: "tid \<notin> self_processing_tasks self"
    and depth: "\<forall>d. self_callback_depth self tid = Some d \<longrightarrow> d \<le> 5"
    and stored: "find (\<lambda>x. Task_id x = tid) (self_tasks self) = Some old"
  shows "find (\<lambda>x. Task_id x = tid)
           (self_tasks (fst (task_callback out self (ArgStatus e) agent_card)))
         = Some (snd (task_callback out self (ArgStatus e) agent_card))
       \<and> Task_status (snd (task_callback out self (ArgStatus e) agent_card))
         = TaskStatusUpdateEvent_status e
       \<and> ((\<exists>x \<in> set (self_tasks self). Task_id x = Task_id task) \<longrightarrow>
            find (\<lambda>x. Task_id x = Task_id task) (self_tasks (update_task self task)) = Some task)"
proof -
  let ?d = "case self_callback_depth self tid of None \<Rightarrow> 0 | Some d \<Rightarrow> d"
  have d: "\<not> ?d > 5" using depth by (auto split: option.splits)
  let ?self1 = "self\<lparr>self_processing_tasks := insert tid (self_processing_tasks self),
                      self_callback_depth := (self_callback_depth self)(tid \<mapsto> ?d + 1)\<rparr>"
  let ?self2 = "emit_event out ?self1 (ArgStatus e) agent_card"
  have get: "add_or_get_task out ?self2 tid (TaskStatusUpdateEvent_contextId e) = (?self2, old)"
    using tid(2) stored by (simp add: add_or_get_task_def)
  let ?t1 = "old\<lparr>Task_status := TaskStatusUpdateEvent_status e\<rparr>"
  let ?t2 = "insert_message_history ?t1 (TaskStatus_message (TaskStatusUpdateEvent_status e))"
  let ?s1 = "attach_message_to_task ?self2 (TaskStatus_message (TaskStatusUpdateEvent_status e)) (Task_id ?t1)"
  have res: "task_callback out self (ArgStatus e) agent_card
      = (callback_finally (update_task ?s1 ?t2) tid, ?t2)"
    using tid(1) idle d get by (simp add: task_callback_def Let_def)
  have old: "Task_id old = tid" "old \<in> set (self_tasks self)"
    using find_Some_id [OF stored] by auto
  have "find (\<lambda>x. Task_id x = tid) (replace_first ?t2 (self_tasks self)) = Some ?t2"
    using old by (intro find_replace_first) auto
  then have a: "find (\<lambda>x. Task_id x = tid)
           (self_tasks (fst (task_callback out self (ArgStatus e) agent_card)))
         = Some (snd (task_callback out self (ArgStatus e) agent_card))"
    by (simp add: res update_task_def)
  have b: "Task_status (snd (task_callback out self (ArgStatus e) agent_card))
         = TaskStatusUpdateEvent_status e"
    by (simp add: res)
  have c: "(\<exists>x \<in> set (self_tasks self). Task_id x = Task_id task) \<longrightarrow>
            find (\<lambda>x. Task_id x = Task_id task) (self_tasks (update_task self task)) = Some task"
    by (simp add: update_task_def find_replace_first)
  from a b c show ?thesis by blast
qed

text \<open>
  Counterexample to C1 as stated: the stored task \<^verbatim>\<open>t1\<close> is completed, a terminal state. A
  status update event with state \<^verbatim>\<open>working\<close> is handled and the stored task is then
  working; \<^verbatim>\<open>update_task\<close> with a working task of that id replaces the completed one.
\<close>
theorem terminal_task_update_counterexample:
  "terminal (TaskStatus_state (Task_status (ex_task completed)))
   \<and> self_tasks (fst (task_callback ex_outside (ex_manager [ex_task completed])
                         (ArgStatus (ex_status_event working)) \<lparr>AgentCard_name = ''remote''\<rparr>))
     = [(ex_task completed)\<lparr>Task_status := ex_status working\<rparr>]
   \<and> self_tasks (update_task (ex_manager [ex_task completed]) (ex_task working))
     = [ex_task working]"
  by (simp add: terminal_def ex_task_def ex_status_def ex_manager_def ex_status_event_def
        ex_outside_def task_callback_def emit_event_def add_event_def add_or_get_task_def
        attach_message_to_task_def insert_message_history_def update_task_def
        callback_finally_def Let_def)

text \<open>
  Witness for the amended C1, at the completed task \<^verbatim>\<open>t1\<close>.
\<close>
theorem status_update_applied_in_any_state_witness:
  "find (\<lambda>x. Task_id x = ''t1'')
     (self_tasks (fst (task_callback ex_outside (ex_manager [ex_task completed])
                         (ArgStatus (ex_status_event working)) \<lparr>AgentCard_name = ''remote''\<rparr>)))
   = Some (snd (task_callback ex_outside (ex_manager [ex_task completed])
                         (ArgStatus (ex_status_event working)) \<lparr>AgentCard_name = ''remote''\<rparr>))
   \<and> Task_status (snd (task_callback ex_outside (ex_manager [ex_task completed])
                         (ArgStatus (ex_status_event working)) \<lparr>AgentCard_name = ''remote''\<rparr>))
     = ex_status working
   \<and> find (\<lambda>x. Task_id x = ''t1'')
        (self_tasks (update_task (ex_manager [ex_task completed]) (ex_task failed)))
     = Some (ex_task failed)"
proof -
  have a: "TaskStatusUpdateEvent_taskId (ex_status_event working) = ''t1''"
    by (simp add: ex_status_event_def)
  have b: "''t1'' \<noteq> []" by simp
  have c: "''t1'' \<notin> self_processing_tasks (ex_manager [ex_task completed])"
    by (simp add: ex_manager_def)
  have d: "\<forall>d. self_callback_depth (ex_manager [ex_task completed]) ''t1'' = Some d \<longrightarrow> d \<le> 5"
    by (simp add: ex_manager_def)
  have e: "find (\<lambda>x. Task_id x = ''t1'') (self_tasks (ex_manager [ex_task completed]))
             = Some (ex_task completed)"
    by (simp add: ex_manager_def ex_task_def)
  have u: "\<exists>x \<in> set (self_tasks (ex_manager [ex_task completed])). Task_id x = Task_id (ex_task failed)"
    by (simp add: ex_manager_def ex_task_def)
  have i: "Task_id (ex_task failed) = ''t1''" "TaskStatusUpdateEvent_status (ex_status_event working) = ex_status working"
    by (simp_all add: ex_task_def ex_status_event_def)
  show ?thesis
    using status_update_applied_in_any_state
            [OF a b c d e, of ex_outside "\<lparr>AgentCard_name = ''remote''\<rparr>" "ex_task failed"] u
    unfolding i by blast
qed

section \<open>Properties of the agent selection\<close>

text \<open>
  Claim C5. The claim gives the window as 100 characters on each side of the term. In
  \<^verbatim>\<open>app.py\<close> the window has 50: for a text with 100 characters on each side of \<^verbatim>\<open>gold\<close>, the
  window holds the term with the 50 characters before it and the 50 after it.
\<close>
theorem app_window_is_fifty_characters:
  "app_window_text (replicate 100 CHR ''x'' @ ''gold'' @ replicate 100 CHR ''y'') ''gold''
     = Some (replicate 50 CHR ''x'' @ ''gold'' @ replicate 50 CHR ''y'')"
  by code_simp

text \<open>
  The copy of the function in \<^verbatim>\<open>__main__.py\<close> does take 100 characters on each side.
\<close>
lemma main_window_is_hundred_characters:
  "main_window_text (replicate 120 CHR ''x'' @ ''gold'' @ replicate 120 CHR ''y'') ''gold''
     = Some (replicate 100 CHR ''x'' @ ''gold'' @ replicate 100 CHR ''y'')"
  by code_simp

lemma analyze_request_returns:
  "\<exists>verdict. analyze_request scorer ainvoke q = Returns verdict"
  by (cases "ainvoke q") (simp_all add: analyze_request_def)

text \<open>
  When the model answers, the combiner has the three outcomes of the claim: the
  arbiter's verdict is \<^verbatim>\<open>currency\<close> if the reply contains that word and \<^verbatim>\<open>element\<close> otherwise;
  on agreement with the scorer that agent is picked with the larger of the scorer's
  confidence and 0.85; on disagreement the arbiter's agent is picked with confidence 0.8
  when the scorer's confidence is below 0.65, and the scorer's pick and confidence stand
  otherwise.
\<close>
lemma combiner_with_a_reply:
  fixes scorer :: "string \<Rightarrow> string \<times> real"
  assumes "ainvoke q = Returns content"
    and "l = (if contains (lower content) ''currency'' then ''currency'' else ''element'')"
  shows
   "(l = fst (scorer q) \<longrightarrow>
       agent_type (execute scorer ainvoke q) = l
       \<and> confidence (execute scorer ainvoke q) = max (snd (scorer q)) 0.85)
    \<and> (l \<noteq> fst (scorer q) \<and> snd (scorer q) < 0.65 \<longrightarrow>
       agent_type (execute scorer ainvoke q) = l
       \<and> confidence (execute scorer ainvoke q) = 0.8)
    \<and> (l \<noteq> fst (scorer q) \<and> snd (scorer q) \<ge> 0.65 \<longrightarrow>
       agent_type (execute scorer ainvoke q) = fst (scorer q)
       \<and> confidence (execute scorer ainvoke q) = snd (scorer q))"
  using assms by (cases "scorer q") (auto simp add: execute_def analyze_request_def)

text \<open>
  When the call of the model raises, \<^verbatim>\<open>analyze_request\<close> catches the exception and returns
  the scorer's pick, so \<^verbatim>\<open>execute\<close> sees an agreement: the pick is the scorer's, but the
  confidence is the larger of the scorer's and 0.85, and the except branch of \<^verbatim>\<open>execute\<close>,
  which would keep the scorer's confidence, is never taken.
\<close>
lemma failed_model_counts_as_agreement:
  "ainvoke q = Raises e \<Longrightarrow>
     execute scorer ainvoke q =
       \<lparr>agent_type = fst (scorer q), confidence = max (snd (scorer q)) 0.85,
        decision_method = Consistent_result\<rparr>"
  by (cases "scorer q") (simp add: execute_def analyze_request_def)

lemma except_branch_never_taken:
  "decision_method (execute scorer ainvoke q) \<noteq> Keywords_LLM_failed"
  by (cases "scorer q"; cases "ainvoke q")
     (simp_all add: execute_def analyze_request_def)

text \<open>
  Claim C4. The claim says that when the LLM arbiter fails, the final pick and confidence
  are the keyword scorer's. For a query in which no keyword occurs the scorer says
  \<^verbatim>\<open>element\<close> with confidence 0.5; when the call of the model raises, the arbiter returns
  \<^verbatim>\<open>element\<close> and the final confidence is 0.85, under the label of an agreement.
\<close>
theorem failed_llm_raises_the_confidence:
  "keyword_verdict 0 0 = (''element'', 0.5)
   \<and> analyze_request (\<lambda>q. keyword_verdict 0 0) (\<lambda>q. Raises ''Connection error.'') ''hello''
       = Returns ''element''
   \<and> execute (\<lambda>q. keyword_verdict 0 0) (\<lambda>q. Raises ''Connection error.'') ''hello''
       = \<lparr>agent_type = ''element'', confidence = 0.85, decision_method = Consistent_result\<rparr>"
  by (simp add: keyword_verdict_def execute_def analyze_request_def)

section \<open>Properties of the query cache\<close>













lemma set_with_limit_zero_raises:
  "QueryCache_set now q r (QueryCache_init 0 ttl) = Inl (ValueError ''min() arg is an empty sequence'')"
  by (simp add: QueryCache_set_def QueryCache_init_def)
















section \<open>Properties of the wire types of version 0.1\<close>

lemma decode_TaskState_Some:
  "(\<exists>st. decode_TaskState (JString s) = Some st)
     \<longleftrightarrow> s \<in> {''submitted'', ''working'', ''completed'', ''failed''}"
  by (simp add: decode_TaskState_def)

text \<open>
  Claim C3, as amended. The enumeration \<^verbatim>\<open>TaskState\<close> of \<^verbatim>\<open>0.1/common/types.py\<close> has four
  members: a state string decodes, and a \<^verbatim>\<open>TaskStatus\<close> with that state decodes, exactly for
  \<^verbatim>\<open>submitted\<close>, \<^verbatim>\<open>working\<close>, \<^verbatim>\<open>completed\<close> and \<^verbatim>\<open>failed\<close>.
\<close>
theorem task_state_admits_four_values:
  "((\<exists>st. decode_TaskState (JString s) = Some st)
      \<longleftrightarrow> s \<in> {''submitted'', ''working'', ''completed'', ''failed''})
   \<and> ((\<exists>status. decode_TaskStatus fromiso now (JObject [(''state'', JString s)]) = Some status)
      \<longleftrightarrow> s \<in> {''submitted'', ''working'', ''completed'', ''failed''})"
proof -
  have "(\<exists>status. decode_TaskStatus fromiso now (JObject [(''state'', JString s)]) = Some status)
      \<longleftrightarrow> (\<exists>st. decode_TaskState (JString s) = Some st)"
    by (cases "decode_TaskState (JString s)")
       (simp_all add: decode_TaskStatus_def required_def optional_def defaulted_def)
  with decode_TaskState_Some [of s] show ?thesis by simp
qed

text \<open>
  Witness for the amended C3: \<^verbatim>\<open>working\<close> and \<^verbatim>\<open>failed\<close> decode, \<^verbatim>\<open>paused\<close> does not.
\<close>
theorem task_state_admits_four_values_witness:
  "(\<exists>st. decode_TaskState (JString ''working'') = Some st)
   \<and> (\<exists>status. decode_TaskStatus Some ''2026-01-01T00:00:00''
         (JObject [(''state'', JString ''failed'')]) = Some status)
   \<and> \<not> (\<exists>st. decode_TaskState (JString ''paused'') = Some st)"
  using task_state_admits_four_values [of "''working''" Some "''2026-01-01T00:00:00''"]
        task_state_admits_four_values [of "''failed''" Some "''2026-01-01T00:00:00''"]
        task_state_admits_four_values [of "''paused''" Some "''2026-01-01T00:00:00''"]
  by simp

text \<open>
  Counterexample to C3 as stated: of the seven state strings of the claim, \<^verbatim>\<open>canceled\<close>,
  \<^verbatim>\<open>input_required\<close> and \<^verbatim>\<open>unknown\<close> do not decode.
\<close>
theorem seven_task_states_counterexample:
  "decode_TaskStatus Some ''2026-01-01T00:00:00'' (JObject [(''state'', JString ''canceled'')]) = None
   \<and> decode_TaskStatus Some ''2026-01-01T00:00:00'' (JObject [(''state'', JString ''input_required'')]) = None
   \<and> decode_TaskStatus Some ''2026-01-01T00:00:00'' (JObject [(''state'', JString ''unknown'')]) = None"
  by (simp add: decode_TaskStatus_def required_def decode_TaskState_def)

lemma check_content_accepts:
  "(\<exists>g. check_content f = Inr g)
     \<longleftrightarrow> (str_truthy (FileContent_bytes f) \<noteq> str_truthy (FileContent_uri f))"
  by (auto simp add: check_content_def)

lemma decode_FileContent_bytes_uri:
  "(\<exists>f. decode_FileContent
            (JObject (field_opt True ''bytes'' JString b @ field_opt True ''uri'' JString u)) = Some f)
     \<longleftrightarrow> (str_truthy b \<noteq> str_truthy u)"
  by (cases b; cases u)
     (auto simp add: decode_FileContent_def optional_def field_opt_def as_str_def check_content_def)

text \<open>
  What \<^verbatim>\<open>check_content\<close> decides: it tests the truth values of \<^verbatim>\<open>bytes\<close> and \<^verbatim>\<open>uri\<close>. A file
  content is accepted exactly when one of the two fields is a string that is not empty and
  the other is \<^verbatim>\<open>None\<close> or empty, and a file part whose file object has at most these two
  fields decodes exactly then. Otherwise the validator raises \<^verbatim>\<open>ValueError\<close> and the
  decoding fails.
\<close>
lemma file_part_needs_one_nonempty_source:
  "((\<exists>g. check_content f = Inr g)
      \<longleftrightarrow> (str_truthy (FileContent_bytes f) \<noteq> str_truthy (FileContent_uri f)))
   \<and> ((\<exists>p. decode_Part (JObject [(''type'', JString ''file''),
              (''file'', JObject (field_opt True ''bytes'' JString b
                                   @ field_opt True ''uri'' JString u))]) = Some p)
      \<longleftrightarrow> (str_truthy b \<noteq> str_truthy u))"
proof -
  let ?file = "JObject (field_opt True ''bytes'' JString b @ field_opt True ''uri'' JString u)"
  have "(\<exists>p. decode_Part (JObject [(''type'', JString ''file''), (''file'', ?file)]) = Some p)
      \<longleftrightarrow> (\<exists>f. decode_FileContent ?file = Some f)"
    by (cases "decode_FileContent ?file")
       (simp_all add: decode_Part_def required_def optional_def)
  with decode_FileContent_bytes_uri [of b u] check_content_accepts [of f]
  show ?thesis by simp
qed

text \<open>
  With strings that are not empty the validator does what its documentation says: bytes
  alone and a uri alone are accepted, both together and neither are rejected.
\<close>
lemma file_part_needs_one_nonempty_source_example:
  "(\<exists>g. check_content \<lparr>FileContent_name = None, FileContent_mimeType = None,
                         FileContent_bytes = Some ''aGk='', FileContent_uri = None\<rparr> = Inr g)
   \<and> (\<exists>p. decode_Part (JObject [(''type'', JString ''file''),
              (''file'', JObject [(''uri'', JString ''file:///a.txt'')])]) = Some p)
   \<and> \<not> (\<exists>p. decode_Part (JObject [(''type'', JString ''file''),
              (''file'', JObject [(''bytes'', JString ''aGk=''), (''uri'', JString ''file:///a.txt'')])]) = Some p)
   \<and> \<not> (\<exists>p. decode_Part (JObject [(''type'', JString ''file''), (''file'', JObject [])]) = Some p)"
  using file_part_needs_one_nonempty_source
          [of "\<lparr>FileContent_name = None, FileContent_mimeType = None,
                FileContent_bytes = Some ''aGk='', FileContent_uri = None\<rparr>"
              None "Some ''file:///a.txt''"]
        file_part_needs_one_nonempty_source
          [of "\<lparr>FileContent_name = None, FileContent_mimeType = None,
                FileContent_bytes = Some ''aGk='', FileContent_uri = None\<rparr>"
              "Some ''aGk=''" "Some ''file:///a.txt''"]
        file_part_needs_one_nonempty_source
          [of "\<lparr>FileContent_name = None, FileContent_mimeType = None,
                FileContent_bytes = Some ''aGk='', FileContent_uri = None\<rparr>"
              None None]
  by (simp add: field_opt_def)

text \<open>
  Claim C7. The claim, like the documentation of \<^verbatim>\<open>check_content\<close> and the messages of its
  errors, wants a file part with both \<^verbatim>\<open>bytes\<close> and \<^verbatim>\<open>uri\<close> rejected and a file part with one
  of them accepted. A file part that carries both fields, \<^verbatim>\<open>bytes\<close> being the empty string,
  decodes; a file part that carries \<^verbatim>\<open>bytes\<close> alone, as the empty string, is rejected.
\<close>
theorem file_part_with_empty_bytes_and_uri_is_accepted:
  "decode_Part (JObject [(''type'', JString ''file''),
      (''file'', JObject [(''bytes'', JString ''''), (''uri'', JString ''file:///a.txt'')])])
     = Some (FilePart01 \<lparr>FileContent_name = None, FileContent_mimeType = None,
                          FileContent_bytes = Some '''', FileContent_uri = Some ''file:///a.txt''\<rparr>
               None)
   \<and> decode_Part (JObject [(''type'', JString ''file''),
      (''file'', JObject [(''bytes'', JString '''')])]) = None"
  by (simp add: decode_Part_def required_def optional_def decode_FileContent_def as_str_def
        as_dict_def check_content_def)

section \<open>Properties of the task manager of version 0.1\<close>

lemma decode_Message_empty_parts:
  "decode_Message (JObject [(''role'', encode_Role r), (''parts'', JArray [])])
     = Some \<lparr>Message01_role = r, Message01_parts = [], Message01_metadata = None\<rparr>"
  by (cases r)
     (simp_all add: decode_Message_def required_def optional_def decode_Role_def as_list_def)

text \<open>
  For every implementation of the inherited operations: a request with an empty list of
  parts that passes \<^verbatim>\<open>_validate_request\<close> and the check of the push URL is taken up. The
  task is upserted, and for \<^verbatim>\<open>tasks/send\<close> moved to working, before \<^verbatim>\<open>_get_user_query\<close> raises
  its \<^verbatim>\<open>ValueError\<close>; the agent is not called. \<^verbatim>\<open>tasks/send\<close> ends with the exception, and
  \<^verbatim>\<open>tasks/sendSubscribe\<close> returns the stream while the exception ends the background task.
\<close>
lemma empty_parts_taken_up_then_value_error:
  fixes base :: "('s, 'dt) base" and request :: "TaskSendParams JSONRPCRequest"
  defines "params \<equiv> JSONRPCRequest_params request"
  assumes empty: "Message01_parts (TaskSendParams_message params) = []"
    and valid: "validate_request base request = None"
    and push: "\<forall>cfg. TaskSendParams_pushNotification params = Some cfg \<longrightarrow>
                 verify_push_notification_url base (PushNotificationConfig_url cfg)"
  shows
    "decode_Message (JObject [(''role'', JString ''user''), (''parts'', JArray [])])
       = Some \<lparr>Message01_role = role_user, Message01_parts = [], Message01_metadata = None\<rparr>
     \<and> on_send_task base self_agent now s request =
        (let s0 = (case TaskSendParams_pushNotification params of
                     Some cfg \<Rightarrow>
                       base_set_push_notification_info base s (TaskSendParams_id params) cfg
                   | None \<Rightarrow> s);
             working = \<lparr>TaskStatus01_state = WORKING, TaskStatus01_message = None,
                        TaskStatus01_timestamp = now\<rparr>;
             stored = update_store base (upsert_task base s0 params)
                        (TaskSendParams_id params) working []
         in (send_task_notification base (fst stored) (snd stored),
             Inl (ValueError ''Message parts cannot be empty'')))
     \<and> on_send_task_subscribe base self_agent now s request =
        (let s1 = upsert_task base s params;
             s2 = (case TaskSendParams_pushNotification params of
                     Some cfg \<Rightarrow>
                       base_set_push_notification_info base s1 (TaskSendParams_id params) cfg
                   | None \<Rightarrow> s1)
         in (setup_sse_consumer base s2 (TaskSendParams_id params) False, None,
             Some (ValueError ''Message parts cannot be empty'')))"
proof -
  have q: "get_user_query (JSONRPCRequest_params request)
             = Inl (ValueError ''Message parts cannot be empty'')"
    using empty by (simp add: get_user_query_def params_def)
  have d: "decode_Message (JObject [(''role'', JString ''user''), (''parts'', JArray [])])
       = Some \<lparr>Message01_role = role_user, Message01_parts = [], Message01_metadata = None\<rparr>"
    using decode_Message_empty_parts [of role_user] by simp
  show ?thesis
  proof (cases "TaskSendParams_pushNotification params")
    case None
    then have n: "TaskSendParams_pushNotification (JSONRPCRequest_params request) = None"
      by (simp add: params_def)
    show ?thesis
      unfolding params_def
      by (simp add: d on_send_task_def on_send_task_subscribe_def run_streaming_agent_def
            valid q n Let_def split_beta)
  next
    case (Some cfg)
    then have n: "TaskSendParams_pushNotification (JSONRPCRequest_params request) = Some cfg"
      by (simp add: params_def)
    have v: "verify_push_notification_url base (PushNotificationConfig_url cfg)"
      using push Some by simp
    show ?thesis
      unfolding params_def
      by (simp add: d on_send_task_def on_send_task_subscribe_def run_streaming_agent_def
            set_push_notification_info_def valid q n v Let_def split_beta)
  qed
qed

text \<open>
  Claim C8. The claim wants a request with an empty list of parts rejected as invalid
  params (code -32602) and never taken up. The decoder accepts the parameters, and with
  the stand-in operations \<^verbatim>\<open>tasks/send\<close> upserts the task \<^verbatim>\<open>t1\<close>, moves it to working and then
  ends with \<^verbatim>\<open>ValueError\<close>; \<^verbatim>\<open>tasks/sendSubscribe\<close> upserts the task, sets up the queue and
  answers with the stream (no error), the \<^verbatim>\<open>ValueError\<close> ending its background task.
\<close>
theorem empty_parts_request_is_taken_up:
  "decode_TaskSendParams ''u''
     (JObject [(''id'', JString ''t1''), (''sessionId'', JString ''s1''),
               (''message'', JObject [(''role'', JString ''user''), (''parts'', JArray [])]),
               (''acceptedOutputModes'', JArray [JString ''text''])])
     = Some (JSONRPCRequest_params (ex_request []))
   \<and> on_send_task ex_base ex_agent ''now'' [] (ex_request [])
     = ([''upsert_task t1'', ''update_store t1 working''],
        Inl (ValueError ''Message parts cannot be empty''))
   \<and> on_send_task_subscribe ex_base ex_agent ''now'' [] (ex_request [])
     = ([''upsert_task t1'', ''setup_sse_consumer t1''], None,
        Some (ValueError ''Message parts cannot be empty''))"
  by (simp add: decode_TaskSendParams_def decode_Message_def required_def optional_def
        defaulted_def as_str_def as_list_def as_int_def as_dict_def decode_Role_def
        ex_request_def ex_base_def ex_agent_def on_send_task_def on_send_task_subscribe_def
        run_streaming_agent_def validate_request_def get_user_query_def
        send_task_notification_def Let_def)

text \<open>The same two runs, from the general statement.\<close>
lemma empty_parts_taken_up_then_value_error_example:
  "on_send_task ex_base ex_agent ''now'' [] (ex_request [])
     = ([''upsert_task t1'', ''update_store t1 working''],
        Inl (ValueError ''Message parts cannot be empty''))
   \<and> on_send_task_subscribe ex_base ex_agent ''now'' [] (ex_request [])
     = ([''upsert_task t1'', ''setup_sse_consumer t1''], None,
        Some (ValueError ''Message parts cannot be empty''))"
proof -
  have a: "Message01_parts (TaskSendParams_message (JSONRPCRequest_params (ex_request []))) = []"
    by (simp add: ex_request_def)
  have b: "validate_request ex_base (ex_request []) = None"
    by (simp add: validate_request_def ex_request_def ex_base_def)
  have c: "\<forall>cfg. TaskSendParams_pushNotification (JSONRPCRequest_params (ex_request [])) = Some cfg
             \<longrightarrow> verify_push_notification_url ex_base (PushNotificationConfig_url cfg)"
    by (simp add: ex_request_def)
  have n: "TaskSendParams_pushNotification (JSONRPCRequest_params (ex_request [])) = None"
          "TaskSendParams_id (JSONRPCRequest_params (ex_request [])) = ''t1''"
    by (simp_all add: ex_request_def)
  have u: "upsert_task ex_base [] (JSONRPCRequest_params (ex_request [])) = [''upsert_task t1'']"
    by (simp add: ex_base_def ex_request_def)
  show ?thesis
    using empty_parts_taken_up_then_value_error [OF a b c, of ex_agent "''now''" "[]"]
    by (simp add: n u Let_def send_task_notification_def ex_base_def)
qed

section \<open>Encoding a value and decoding it again\<close>

lemma field_opt_False: "field_opt False k enc v = [(k, case_option JNull enc v)]"
  by (cases v) (simp_all add: field_opt_def)

lemma optional_case_option:
  "(\<And>x. v = Some x \<Longrightarrow> enc x \<noteq> JNull \<and> dec (enc x) = Some x) \<Longrightarrow>
     (if case_option JNull enc v = JNull then Some None
      else map_option Some (dec (case_option JNull enc v))) = Some v"
  by (cases v) simp_all

lemma as_list_map:
  "(\<And>x. x \<in> set xs \<Longrightarrow> dec (enc x) = Some x) \<Longrightarrow>
     as_list dec (JArray (map enc xs)) = Some xs"
  by (induction xs) (simp_all add: as_list_def)

lemma as_list_strs: "as_list as_str (encode_strs xs) = Some xs"
  unfolding encode_strs_def by (rule as_list_map) (simp add: as_str_def)

lemma encode_strs_not_null: "encode_strs xs \<noteq> JNull"
  by (simp add: encode_strs_def)

lemmas prim_rt = as_str_def as_int_def as_bool_def as_dict_def as_list_strs encode_strs_not_null

lemmas field_rt = required_def defaulted_def optional_def field_opt_False
  optional_case_option

lemma FileContent_roundtrip:
  "valid_FileContent f \<Longrightarrow> decode_FileContent (encode_FileContent False f) = Some f"
  by (cases f)
     (simp add: decode_FileContent_def encode_FileContent_def valid_FileContent_def
        field_rt prim_rt)

lemma encode_FileContent_not_null: "encode_FileContent en f \<noteq> JNull"
  by (simp add: encode_FileContent_def)

lemma Part_roundtrip:
  "valid_Part p \<Longrightarrow> decode_Part (encode_Part False p) = Some p"
  by (cases p)
     (simp_all add: decode_Part_def FileContent_roundtrip field_rt prim_rt)

lemma Parts_roundtrip:
  "list_all valid_Part ps \<Longrightarrow> as_list decode_Part (JArray (map (encode_Part False) ps)) = Some ps"
  by (rule as_list_map) (simp add: list_all_iff Part_roundtrip)

lemma Message_roundtrip:
  "valid_Message m \<Longrightarrow> decode_Message (encode_Message False m) = Some m"
proof -
  assume "valid_Message m"
  then have p: "as_list decode_Part (JArray (map (encode_Part False) (Message01_parts m)))
                  = Some (Message01_parts m)"
    by (simp add: valid_Message_def Parts_roundtrip)
  have r: "decode_Role (encode_Role (Message01_role m)) = Some (Message01_role m)"
    by (cases "Message01_role m") (simp_all add: decode_Role_def)
  show ?thesis
    by (simp add: decode_Message_def encode_Message_def p r field_rt prim_rt)
qed

lemma encode_Message_not_null: "encode_Message en m \<noteq> JNull"
  by (simp add: encode_Message_def)

lemma TaskState_roundtrip: "decode_TaskState (JString (TaskState01_value st)) = Some st"
  by (cases st) (simp_all add: decode_TaskState_def)

lemma TaskStatus_roundtrip:
  assumes "valid_TaskStatus s" and "\<And>d. fromiso (isoformat d) = Some d"
  shows "decode_TaskStatus fromiso now (encode_TaskStatus isoformat False s) = Some s"
proof -
  have m: "\<And>x. TaskStatus01_message s = Some x \<Longrightarrow>
             encode_Message False x \<noteq> JNull \<and> decode_Message (encode_Message False x) = Some x"
    using assms(1) by (simp add: valid_TaskStatus_def Message_roundtrip encode_Message_not_null)
  have o: "(if case_option JNull (encode_Message False) (TaskStatus01_message s) = JNull
            then Some None
            else map_option Some (decode_Message
                   (case_option JNull (encode_Message False) (TaskStatus01_message s))))
           = Some (TaskStatus01_message s)"
    using m by (rule optional_case_option)
  show ?thesis
    by (simp add: decode_TaskStatus_def encode_TaskStatus_def decode_datetime_def assms(2)
          TaskState_roundtrip required_def defaulted_def optional_def field_opt_False o)
qed


lemma encode_TaskStatus_not_null: "encode_TaskStatus isoformat en s \<noteq> JNull"
  by (simp add: encode_TaskStatus_def)

lemma Artifact_roundtrip:
  "valid_Artifact a \<Longrightarrow> decode_Artifact (encode_Artifact False a) = Some a"
proof -
  assume "valid_Artifact a"
  then have p: "as_list decode_Part (JArray (map (encode_Part False) (Artifact01_parts a)))
                  = Some (Artifact01_parts a)"
    by (simp add: valid_Artifact_def Parts_roundtrip)
  show ?thesis
    by (simp add: decode_Artifact_def encode_Artifact_def p field_rt prim_rt)
qed

lemma Artifacts_roundtrip:
  "list_all valid_Artifact as \<Longrightarrow>
     as_list decode_Artifact (JArray (map (encode_Artifact False) as)) = Some as"
  by (rule as_list_map) (simp add: list_all_iff Artifact_roundtrip)

lemma Messages_roundtrip:
  "list_all valid_Message ms \<Longrightarrow>
     as_list decode_Message (JArray (map (encode_Message False) ms)) = Some ms"
  by (rule as_list_map) (simp add: list_all_iff Message_roundtrip)

lemma Task_roundtrip:
  assumes "valid_Task t" and "\<And>d. fromiso (isoformat d) = Some d"
  shows "decode_Task fromiso now (encode_Task isoformat False t) = Some t"
proof -
  have s: "decode_TaskStatus fromiso now (encode_TaskStatus isoformat False (Task01_status t))
             = Some (Task01_status t)"
    using assms by (intro TaskStatus_roundtrip) (simp_all add: valid_Task_def)
  have a: "\<And>x. Task01_artifacts t = Some x \<Longrightarrow>
             JArray (map (encode_Artifact False) x) \<noteq> JNull
             \<and> as_list decode_Artifact (JArray (map (encode_Artifact False) x)) = Some x"
    using assms(1) by (simp add: valid_Task_def Artifacts_roundtrip)
  have h: "\<And>x. Task01_history t = Some x \<Longrightarrow>
             JArray (map (encode_Message False) x) \<noteq> JNull
             \<and> as_list decode_Message (JArray (map (encode_Message False) x)) = Some x"
    using assms(1) by (simp add: valid_Task_def Messages_roundtrip)
  note oa = optional_case_option [of "Task01_artifacts t"
              "\<lambda>as. JArray (map (encode_Artifact False) as)" "as_list decode_Artifact", OF a]
  note oh = optional_case_option [of "Task01_history t"
              "\<lambda>ms. JArray (map (encode_Message False) ms)" "as_list decode_Message", OF h]
  show ?thesis
    by (simp add: decode_Task_def encode_Task_def s oa oh encode_TaskStatus_not_null
          field_rt prim_rt)
qed

lemma filter_extra:
  "list_all (\<lambda>(k, v). k \<noteq> ''schemes'' \<and> k \<noteq> ''credentials'') xs \<Longrightarrow>
     filter (\<lambda>(k, v). k \<noteq> ''schemes'' \<and> k \<noteq> ''credentials'') xs = xs"
  by (induction xs) auto

lemma AuthenticationInfo_roundtrip:
  "valid_AuthenticationInfo a \<Longrightarrow>
     decode_AuthenticationInfo (encode_AuthenticationInfo False a) = Some a"
  by (cases a)
     (simp add: decode_AuthenticationInfo_def encode_AuthenticationInfo_def
        valid_AuthenticationInfo_def filter_extra field_rt prim_rt)

lemma encode_AuthenticationInfo_not_null: "encode_AuthenticationInfo en a \<noteq> JNull"
  by (simp add: encode_AuthenticationInfo_def)

lemma PushNotificationConfig_roundtrip:
  assumes "valid_PushNotificationConfig c"
  shows "decode_PushNotificationConfig (encode_PushNotificationConfig False c) = Some c"
proof -
  have a: "\<And>x. PushNotificationConfig_authentication c = Some x \<Longrightarrow>
             encode_AuthenticationInfo False x \<noteq> JNull
             \<and> decode_AuthenticationInfo (encode_AuthenticationInfo False x) = Some x"
    using assms
    by (simp add: valid_PushNotificationConfig_def AuthenticationInfo_roundtrip
          encode_AuthenticationInfo_not_null)
  note oa = optional_case_option [of "PushNotificationConfig_authentication c"
              "encode_AuthenticationInfo False" decode_AuthenticationInfo, OF a]
  show ?thesis
    by (simp add: decode_PushNotificationConfig_def encode_PushNotificationConfig_def oa
          field_rt prim_rt)
qed

lemma encode_PushNotificationConfig_not_null: "encode_PushNotificationConfig en c \<noteq> JNull"
  by (simp add: encode_PushNotificationConfig_def)

lemma TaskSendParams_roundtrip:
  assumes "valid_TaskSendParams p"
  shows "decode_TaskSendParams uuid (encode_TaskSendParams False p) = Some p"
proof -
  have m: "decode_Message (encode_Message False (TaskSendParams_message p))
             = Some (TaskSendParams_message p)"
    using assms by (simp add: valid_TaskSendParams_def Message_roundtrip)
  have c: "\<And>x. TaskSendParams_pushNotification p = Some x \<Longrightarrow>
             encode_PushNotificationConfig False x \<noteq> JNull
             \<and> decode_PushNotificationConfig (encode_PushNotificationConfig False x) = Some x"
    using assms
    by (simp add: valid_TaskSendParams_def PushNotificationConfig_roundtrip
          encode_PushNotificationConfig_not_null)
  note oc = optional_case_option [of "TaskSendParams_pushNotification p"
              "encode_PushNotificationConfig False" decode_PushNotificationConfig, OF c]
  show ?thesis
    by (simp add: decode_TaskSendParams_def encode_TaskSendParams_def m oc
          encode_Message_not_null field_rt prim_rt)
qed

lemma TaskIdParams_roundtrip:
  "decode_TaskIdParams (encode_TaskIdParams False p) = Some p"
  by (simp add: decode_TaskIdParams_def encode_TaskIdParams_def field_rt prim_rt)

lemma TaskQueryParams_roundtrip:
  "decode_TaskQueryParams (encode_TaskQueryParams False p) = Some p"
  by (simp add: decode_TaskQueryParams_def encode_TaskQueryParams_def field_rt prim_rt)

lemma TaskPushNotificationConfig_roundtrip:
  "valid_PushNotificationConfig (TaskPushNotificationConfig_pushNotificationConfig c) \<Longrightarrow>
     decode_TaskPushNotificationConfig (encode_TaskPushNotificationConfig False c) = Some c"
  by (simp add: decode_TaskPushNotificationConfig_def encode_TaskPushNotificationConfig_def
        PushNotificationConfig_roundtrip field_rt prim_rt)

lemma rpc_id_roundtrip: "decode_rpc_id (encode_rpc_id i) = Some i"
  by (cases i) (simp_all add: decode_rpc_id_def)

lemma encode_rpc_id_not_null: "encode_rpc_id i \<noteq> JNull"
  by (cases i) simp_all

lemma request_roundtrip:
  assumes "dec (enc (JSONRPCRequest_params r)) = Some (JSONRPCRequest_params r)"
  shows "\<exists>d. encode_request False method enc r = JObject d
             \<and> map_of d ''method'' = Some (JString method)
             \<and> decode_request dec uuid d = Some r"
proof -
  have i: "(if case_option JNull encode_rpc_id (JSONRPCRequest_id r) = JNull then Some None
            else map_option Some (decode_rpc_id
                   (case_option JNull encode_rpc_id (JSONRPCRequest_id r))))
           = Some (JSONRPCRequest_id r)"
    by (rule optional_case_option) (simp add: rpc_id_roundtrip encode_rpc_id_not_null)
  show ?thesis
    by (simp add: encode_request_def decode_request_def decode_jsonrpc_def
          decode_message_id_def i assms field_rt)
qed

lemma A2ARequest_roundtrip:
  assumes "valid_A2ARequest r"
  shows "decode_A2ARequest uuid session_uuid (encode_A2ARequest False r) = Some r"
proof (cases r)
  case (SendTaskRequest x)
  with assms have "decode_TaskSendParams session_uuid (encode_TaskSendParams False (JSONRPCRequest_params x))
      = Some (JSONRPCRequest_params x)"
    by (simp add: TaskSendParams_roundtrip)
  from request_roundtrip [of "decode_TaskSendParams session_uuid" "encode_TaskSendParams False" x, OF this,
         of "''tasks/send''" uuid]
  show ?thesis using SendTaskRequest by (auto simp add: decode_A2ARequest_def)
next
  case (GetTaskRequest x)
  from request_roundtrip [of decode_TaskQueryParams "encode_TaskQueryParams False" x,
         OF TaskQueryParams_roundtrip, of "''tasks/get''" uuid]
  show ?thesis using GetTaskRequest by (auto simp add: decode_A2ARequest_def)
next
  case (CancelTaskRequest x)
  from request_roundtrip [of decode_TaskIdParams "encode_TaskIdParams False" x,
         OF TaskIdParams_roundtrip, of "''tasks/cancel''" uuid]
  show ?thesis using CancelTaskRequest by (auto simp add: decode_A2ARequest_def)
next
  case (SetTaskPushNotificationRequest x)
  with assms have "decode_TaskPushNotificationConfig
      (encode_TaskPushNotificationConfig False (JSONRPCRequest_params x))
      = Some (JSONRPCRequest_params x)"
    by (simp add: TaskPushNotificationConfig_roundtrip)
  from request_roundtrip [of decode_TaskPushNotificationConfig
         "encode_TaskPushNotificationConfig False" x, OF this,
         of "''tasks/pushNotification/set''" uuid]
  show ?thesis using SetTaskPushNotificationRequest by (auto simp add: decode_A2ARequest_def)
next
  case (GetTaskPushNotificationRequest x)
  from request_roundtrip [of decode_TaskIdParams "encode_TaskIdParams False" x,
         OF TaskIdParams_roundtrip, of "''tasks/pushNotification/get''" uuid]
  show ?thesis using GetTaskPushNotificationRequest by (auto simp add: decode_A2ARequest_def)
next
  case (TaskResubscriptionRequest x)
  from request_roundtrip [of decode_TaskIdParams "encode_TaskIdParams False" x,
         OF TaskIdParams_roundtrip, of "''tasks/resubscribe''" uuid]
  show ?thesis using TaskResubscriptionRequest by (auto simp add: decode_A2ARequest_def)
next
  case (SendTaskStreamingRequest x)
  with assms have "decode_TaskSendParams session_uuid (encode_TaskSendParams False (JSONRPCRequest_params x))
      = Some (JSONRPCRequest_params x)"
    by (simp add: TaskSendParams_roundtrip)
  from request_roundtrip [of "decode_TaskSendParams session_uuid" "encode_TaskSendParams False" x, OF this,
         of "''tasks/sendSubscribe''" uuid]
  show ?thesis using SendTaskStreamingRequest by (auto simp add: decode_A2ARequest_def)
qed

lemma JSONRPCError_roundtrip:
  assumes "valid_JSONRPCError e"
  shows "decode_JSONRPCError (encode_JSONRPCError False e) = Some e"
proof -
  have d: "\<And>x. JSONRPCError_data e = Some x \<Longrightarrow> (\<lambda>j. j) x \<noteq> JNull \<and> Some ((\<lambda>j. j) x) = Some x"
    using assms by (auto simp add: valid_JSONRPCError_def)
  note od = optional_case_option [of "JSONRPCError_data e" "\<lambda>j. j" Some, OF d]
  show ?thesis
    by (simp add: decode_JSONRPCError_def encode_JSONRPCError_def od field_rt prim_rt)
qed

lemma encode_JSONRPCError_not_null: "encode_JSONRPCError en e \<noteq> JNull"
  by (simp add: encode_JSONRPCError_def)

lemma response_roundtrip:
  assumes res: "\<And>x. JSONRPCResponse_result r = Some x \<Longrightarrow> enc x \<noteq> JNull \<and> dec (enc x) = Some x"
    and err: "\<And>e. JSONRPCResponse_error r = Some e \<Longrightarrow> valid_JSONRPCError e"
  shows "decode_response dec uuid (encode_response False enc r) = Some r"
proof -
  have i: "(if case_option JNull encode_rpc_id (JSONRPCResponse_id r) = JNull then Some None
            else map_option Some (decode_rpc_id
                   (case_option JNull encode_rpc_id (JSONRPCResponse_id r))))
           = Some (JSONRPCResponse_id r)"
    by (rule optional_case_option) (simp add: rpc_id_roundtrip encode_rpc_id_not_null)
  note ores = optional_case_option [of "JSONRPCResponse_result r" enc dec, OF res]
  have e: "\<And>e. JSONRPCResponse_error r = Some e \<Longrightarrow>
             encode_JSONRPCError False e \<noteq> JNull
             \<and> decode_JSONRPCError (encode_JSONRPCError False e) = Some e"
    using err by (simp add: JSONRPCError_roundtrip encode_JSONRPCError_not_null)
  note oerr = optional_case_option [of "JSONRPCResponse_error r" "encode_JSONRPCError False"
                decode_JSONRPCError, OF e]
  show ?thesis
    by (simp add: decode_response_def encode_response_def decode_jsonrpc_def
          decode_message_id_def i ores oerr required_def defaulted_def optional_def
          field_opt_False)
qed

lemma encode_Task_not_null: "encode_Task isoformat en t \<noteq> JNull"
  by (simp add: encode_Task_def)

lemma TaskStatusUpdateEvent_roundtrip:
  assumes "valid_TaskStatus (TaskStatusUpdateEvent01_status e)"
    and "\<And>d. fromiso (isoformat d) = Some d"
  shows "decode_TaskStatusUpdateEvent fromiso now (encode_TaskStatusUpdateEvent isoformat False e)
           = Some e"
proof -
  have s: "decode_TaskStatus fromiso now
             (encode_TaskStatus isoformat False (TaskStatusUpdateEvent01_status e))
             = Some (TaskStatusUpdateEvent01_status e)"
    using assms by (intro TaskStatus_roundtrip)
  show ?thesis
    by (simp add: decode_TaskStatusUpdateEvent_def encode_TaskStatusUpdateEvent_def s
          field_rt prim_rt)
qed

lemma TaskArtifactUpdateEvent_roundtrip:
  assumes "valid_Artifact (TaskArtifactUpdateEvent01_artifact e)"
  shows "decode_TaskArtifactUpdateEvent (encode_TaskArtifactUpdateEvent False e) = Some e"
  using assms
  by (simp add: decode_TaskArtifactUpdateEvent_def encode_TaskArtifactUpdateEvent_def
        Artifact_roundtrip field_rt prim_rt)

lemma AgentProvider_roundtrip:
  "decode_AgentProvider (encode_AgentProvider False p) = Some p"
  by (simp add: decode_AgentProvider_def encode_AgentProvider_def field_rt prim_rt)

lemma encode_AgentProvider_not_null: "encode_AgentProvider en p \<noteq> JNull"
  by (simp add: encode_AgentProvider_def)

lemma AgentCapabilities_roundtrip:
  "decode_AgentCapabilities (encode_AgentCapabilities c) = Some c"
  by (simp add: decode_AgentCapabilities_def encode_AgentCapabilities_def field_rt prim_rt)

lemma AgentAuthentication_roundtrip:
  "decode_AgentAuthentication (encode_AgentAuthentication False a) = Some a"
  by (simp add: decode_AgentAuthentication_def encode_AgentAuthentication_def field_rt prim_rt)

lemma encode_AgentAuthentication_not_null: "encode_AgentAuthentication en a \<noteq> JNull"
  by (simp add: encode_AgentAuthentication_def)

lemma AgentSkill_roundtrip:
  "decode_AgentSkill (encode_AgentSkill False s) = Some s"
  by (simp add: decode_AgentSkill_def encode_AgentSkill_def field_rt prim_rt)

lemma AgentSkills_roundtrip:
  "as_list decode_AgentSkill (JArray (map (encode_AgentSkill False) ss)) = Some ss"
  by (rule as_list_map) (rule AgentSkill_roundtrip)

lemma AgentCard_roundtrip:
  "decode_AgentCard (encode_AgentCard False c) = Some c"
  by (simp add: decode_AgentCard_def encode_AgentCard_def AgentProvider_roundtrip
        encode_AgentProvider_not_null AgentCapabilities_roundtrip AgentAuthentication_roundtrip
        encode_AgentAuthentication_not_null AgentSkills_roundtrip field_rt prim_rt)

text \<open>
  Claim C9, as amended. For the encoding that \<^verbatim>\<open>model_dump()\<close> gives (every field emitted,
  \<^verbatim>\<open>None\<close> as \<^verbatim>\<open>null\<close>), and a parser of time stamps that reads back what \<^verbatim>\<open>isoformat\<close> writes:
  decoding the encoding of a valid part, message, task status, artifact, task, agent card,
  request or task response gives the value back, so that encoding it again gives the same
  encoding. Encoding and decoding are inverse on the encoder's outputs, not on every input
  that the decoder accepts.
\<close>
theorem encode_then_decode_gives_the_value:
  fixes fromiso :: "string \<Rightarrow> 'dt option" and isoformat :: "'dt \<Rightarrow> string"
    and t :: "'dt Task01" and s :: "'dt TaskStatus01"
    and resp :: "'dt Task01 JSONRPCResponse"
  assumes iso: "\<forall>d. fromiso (isoformat d) = Some d"
  shows
   "(valid_Part p \<longrightarrow> decode_Part (encode_Part False p) = Some p)
    \<and> (valid_Message m \<longrightarrow> decode_Message (encode_Message False m) = Some m)
    \<and> (valid_TaskStatus s \<longrightarrow>
         decode_TaskStatus fromiso now (encode_TaskStatus isoformat False s) = Some s)
    \<and> (valid_Artifact a \<longrightarrow> decode_Artifact (encode_Artifact False a) = Some a)
    \<and> (valid_Task t \<longrightarrow> decode_Task fromiso now (encode_Task isoformat False t) = Some t)
    \<and> decode_AgentCard (encode_AgentCard False c) = Some c
    \<and> (valid_A2ARequest r \<longrightarrow>
         decode_A2ARequest uuid session_uuid (encode_A2ARequest False r) = Some r)
    \<and> ((\<forall>x. JSONRPCResponse_result resp = Some x \<longrightarrow> valid_Task x)
         \<and> (\<forall>e. JSONRPCResponse_error resp = Some e \<longrightarrow> valid_JSONRPCError e) \<longrightarrow>
         decode_response (decode_Task fromiso now) uuid
           (encode_response False (encode_Task isoformat False) resp) = Some resp)"
proof (intro conjI impI)
  show "decode_AgentCard (encode_AgentCard False c) = Some c" by (rule AgentCard_roundtrip)
next
  assume "valid_Part p"
  then show "decode_Part (encode_Part False p) = Some p" by (rule Part_roundtrip)
next
  assume "valid_Message m"
  then show "decode_Message (encode_Message False m) = Some m" by (rule Message_roundtrip)
next
  assume "valid_TaskStatus s"
  then show "decode_TaskStatus fromiso now (encode_TaskStatus isoformat False s) = Some s"
    using iso by (intro TaskStatus_roundtrip) simp_all
next
  assume "valid_Artifact a"
  then show "decode_Artifact (encode_Artifact False a) = Some a" by (rule Artifact_roundtrip)
next
  assume "valid_Task t"
  then show "decode_Task fromiso now (encode_Task isoformat False t) = Some t"
    using iso by (intro Task_roundtrip) simp_all
next
  assume "valid_A2ARequest r"
  then show "decode_A2ARequest uuid session_uuid (encode_A2ARequest False r) = Some r"
    by (rule A2ARequest_roundtrip)
next
  assume h: "(\<forall>x. JSONRPCResponse_result resp = Some x \<longrightarrow> valid_Task x)
         \<and> (\<forall>e. JSONRPCResponse_error resp = Some e \<longrightarrow> valid_JSONRPCError e)"
  show "decode_response (decode_Task fromiso now) uuid
           (encode_response False (encode_Task isoformat False) resp) = Some resp"
  proof (rule response_roundtrip)
    fix x assume "JSONRPCResponse_result resp = Some x"
    with h have "valid_Task x" by blast
    then show "encode_Task isoformat False x \<noteq> JNull
        \<and> decode_Task fromiso now (encode_Task isoformat False x) = Some x"
      using iso by (simp add: Task_roundtrip encode_Task_not_null)
  next
    fix e assume "JSONRPCResponse_error resp = Some e"
    with h show "valid_JSONRPCError e" by blast
  qed
qed

text \<open>The example values are valid.\<close>
lemma ex_valid:
  "valid_Message ex_message01" "valid_TaskStatus ex_status01" "valid_Task ex_task01"
  "valid_Artifact (new_artifact [TextPart01 ''pong'' None] None)"
  "valid_Part (TextPart01 ''ping'' None)"
  "valid_A2ARequest (SendTaskRequest (ex_request [TextPart01 ''ping'' None]))"
  by (simp_all add: valid_Message_def valid_TaskStatus_def valid_Task_def valid_Artifact_def
        valid_FileContent_def check_content_def ex_message01_def ex_status01_def ex_task01_def
        new_artifact_def valid_TaskSendParams_def ex_request_def)

text \<open>
  Witness for the amended C9, with strings as time stamps: the example message, status,
  task, agent card, a \<^verbatim>\<open>tasks/send\<close> request and a response that carries the task.
\<close>
theorem encode_then_decode_gives_the_value_witness:
  "decode_Part (encode_Part False (TextPart01 ''ping'' None)) = Some (TextPart01 ''ping'' None)
   \<and> decode_Message (encode_Message False ex_message01) = Some ex_message01
   \<and> decode_TaskStatus Some ''2026-02-02T00:00:00'' (encode_TaskStatus (\<lambda>d. d) False ex_status01)
       = Some ex_status01
   \<and> decode_Artifact (encode_Artifact False (new_artifact [TextPart01 ''pong'' None] None))
       = Some (new_artifact [TextPart01 ''pong'' None] None)
   \<and> decode_Task Some ''2026-02-02T00:00:00'' (encode_Task (\<lambda>d. d) False ex_task01)
       = Some ex_task01
   \<and> decode_AgentCard (encode_AgentCard False ex_card01) = Some ex_card01
   \<and> decode_A2ARequest ''u1'' ''u2''
        (encode_A2ARequest False (SendTaskRequest (ex_request [TextPart01 ''ping'' None])))
       = Some (SendTaskRequest (ex_request [TextPart01 ''ping'' None]))
   \<and> decode_response (decode_Task Some ''2026-02-02T00:00:00'') ''u1''
        (encode_response False (encode_Task (\<lambda>d. d) False)
           \<lparr>JSONRPCResponse_id = Some (IdStr ''1''), JSONRPCResponse_result = Some ex_task01,
            JSONRPCResponse_error = None\<rparr>)
       = Some \<lparr>JSONRPCResponse_id = Some (IdStr ''1''), JSONRPCResponse_result = Some ex_task01,
               JSONRPCResponse_error = None\<rparr>"
proof -
  have iso: "\<forall>d::string. Some ((\<lambda>d. d) d) = Some d" by simp
  have r: "(\<forall>x. JSONRPCResponse_result
                  \<lparr>JSONRPCResponse_id = Some (IdStr ''1''), JSONRPCResponse_result = Some ex_task01,
                   JSONRPCResponse_error = None\<rparr> = Some x \<longrightarrow> valid_Task x)
         \<and> (\<forall>e. JSONRPCResponse_error
                  \<lparr>JSONRPCResponse_id = Some (IdStr ''1''), JSONRPCResponse_result = Some ex_task01,
                   JSONRPCResponse_error = None\<rparr> = Some e \<longrightarrow> valid_JSONRPCError e)"
    by (simp add: ex_valid)
  show ?thesis
    using encode_then_decode_gives_the_value
            [of Some "\<lambda>d. d" "TextPart01 ''ping'' None" ex_message01 ex_status01
                "''2026-02-02T00:00:00''" "new_artifact [TextPart01 ''pong'' None] None"
                ex_task01 ex_card01 "SendTaskRequest (ex_request [TextPart01 ''ping'' None])"
                "''u1''" "''u2''"
                "\<lparr>JSONRPCResponse_id = Some (IdStr ''1''), JSONRPCResponse_result = Some ex_task01,
                  JSONRPCResponse_error = None\<rparr>", OF iso]
          ex_valid r
    by blast
qed

text \<open>
  Counterexample to C9 as stated. The artifact \<^verbatim>\<open>{"parts": []}\<close> is a valid input; it decodes,
  and its value encodes with the key \<^verbatim>\<open>index\<close> (and, without \<^verbatim>\<open>exclude_none\<close>, with a \<^verbatim>\<open>null\<close>
  for each optional field). A task without a time stamp is encoded with the clock reading
  of its decoding, and a request without \<^verbatim>\<open>jsonrpc\<close> and \<^verbatim>\<open>id\<close> with both, the id being a fresh
  identifier. Even an output of the encoder can change: an error response without id,
  dumped with \<^verbatim>\<open>exclude_none\<close>, has no key \<^verbatim>\<open>id\<close>, and decoding it gives it a fresh id.
\<close>
theorem decode_then_encode_adds_defaults_counterexample:
  "decode_Artifact (JObject [(''parts'', JArray [])]) = Some (new_artifact [] None)
   \<and> encode_Artifact True (new_artifact [] None)
       = JObject [(''parts'', JArray []), (''index'', JInt 0)]
   \<and> encode_Artifact False (new_artifact [] None)
       = JObject [(''name'', JNull), (''description'', JNull), (''parts'', JArray []),
                  (''metadata'', JNull), (''index'', JInt 0), (''append'', JNull),
                  (''lastChunk'', JNull)]
   \<and> decode_Task Some ''2026-02-02T00:00:00''
        (JObject [(''id'', JString ''t1''), (''status'', JObject [(''state'', JString ''working'')])])
       = Some \<lparr>Task01_id = ''t1'', Task01_sessionId = None,
               Task01_status = \<lparr>TaskStatus01_state = WORKING, TaskStatus01_message = None,
                                TaskStatus01_timestamp = ''2026-02-02T00:00:00''\<rparr>,
               Task01_artifacts = None, Task01_history = None, Task01_metadata = None\<rparr>
   \<and> encode_Task (\<lambda>d. d) True
        \<lparr>Task01_id = ''t1'', Task01_sessionId = None,
         Task01_status = \<lparr>TaskStatus01_state = WORKING, TaskStatus01_message = None,
                          TaskStatus01_timestamp = ''2026-02-02T00:00:00''\<rparr>,
         Task01_artifacts = None, Task01_history = None, Task01_metadata = None\<rparr>
       = JObject [(''id'', JString ''t1''),
                  (''status'', JObject [(''state'', JString ''working''),
                                        (''timestamp'', JString ''2026-02-02T00:00:00'')])]
   \<and> decode_A2ARequest ''u1'' ''u2''
        (JObject [(''method'', JString ''tasks/get''), (''params'', JObject [(''id'', JString ''t1'')])])
       = Some (GetTaskRequest
                 \<lparr>JSONRPCRequest_id = Some (IdStr ''u1''),
                  JSONRPCRequest_params =
                    \<lparr>TaskQueryParams_id = ''t1'', TaskQueryParams_metadata = None,
                     TaskQueryParams_historyLength = None\<rparr>\<rparr>)
   \<and> encode_A2ARequest True
        (GetTaskRequest
           \<lparr>JSONRPCRequest_id = Some (IdStr ''u1''),
            JSONRPCRequest_params =
              \<lparr>TaskQueryParams_id = ''t1'', TaskQueryParams_metadata = None,
               TaskQueryParams_historyLength = None\<rparr>\<rparr>)
       = JObject [(''jsonrpc'', JString ''2.0''), (''id'', JString ''u1''),
                  (''method'', JString ''tasks/get''), (''params'', JObject [(''id'', JString ''t1'')])]
   \<and> encode_response True (encode_Task (\<lambda>d. d) True)
        \<lparr>JSONRPCResponse_id = None, JSONRPCResponse_result = None,
         JSONRPCResponse_error = Some (InternalError ''Internal error'')\<rparr>
       = JObject [(''jsonrpc'', JString ''2.0''),
                  (''error'', JObject [(''code'', JInt (- 32603)),
                                       (''message'', JString ''Internal error'')])]
   \<and> decode_response (decode_Task Some ''2026-02-02T00:00:00'') ''u1''
        (JObject [(''jsonrpc'', JString ''2.0''),
                  (''error'', JObject [(''code'', JInt (- 32603)),
                                       (''message'', JString ''Internal error'')])])
       = Some \<lparr>JSONRPCResponse_id = Some (IdStr ''u1''), JSONRPCResponse_result = None,
               JSONRPCResponse_error = Some (InternalError ''Internal error'')\<rparr>"
  by (simp add: encode_response_def decode_response_def encode_JSONRPCError_def
        decode_JSONRPCError_def InternalError_def decode_Artifact_def encode_Artifact_def new_artifact_def decode_Task_def
        encode_Task_def decode_TaskStatus_def encode_TaskStatus_def decode_TaskState_def
        decode_datetime_def decode_A2ARequest_def decode_request_def decode_jsonrpc_def
        decode_message_id_def decode_TaskQueryParams_def encode_request_def
        encode_TaskQueryParams_def required_def optional_def defaulted_def field_opt_def
        as_list_def as_str_def as_int_def as_bool_def as_dict_def)


end
